theory Spec2Isabelle
  imports Complex_Main "HOL-Library.Word"
begin

text \<open>
  A model of \<open>src/server.js\<close>, an Express server that keeps the answers to a restaurant
  survey in one table of a Postgres database.  The file holds two versions of the server
  one after the other; the model is of the second (lines 265 to 689), the one with
  \<open>store_identifier\<close> and \<open>update_count\<close>, and line numbers are those of the file.

  The handlers are functions from a request and the database to a response and the
  database.  What JavaScript does to the values of a request (\<open>String\<close>, \<open>Number\<close>,
  \<open>parseInt\<close>, \<open>trim\<close>, \<open>Math.round\<close>) is modelled after ECMAScript, and what the storage
  engine does with the statements of the server after their SQL text and the table's
  declaration.  A row that a handler reads comes to it through node-postgres, which hands
  over each column in a form of its own; this is modelled after the driver and the text
  format of Postgres (version 12 or later).
\<close>

section \<open>The JavaScript values that server.js handles\<close>

text \<open>
  A JavaScript string is a sequence of UTF-16 code units.  \<open>str\<close> embeds an ASCII
  literal of the source.
\<close>

type_synonym jsstring = "16 word list"

definition str :: "string \<Rightarrow> jsstring" where
  "str s = map (\<lambda>c. of_nat (of_char c)) s"

text \<open>
  A JavaScript number is an IEEE double: a finite value, one of the two infinities, or NaN.
  The finite values are carried as the rationals they denote; the sign of zero, which no
  operation of server.js observes, is not kept.
\<close>

datatype jsnum = Finite rat | PosInfinity | NegInfinity | NaN

text \<open>
  What \<open>JSON.parse\<close> (behind \<open>express.json\<close>) and the query-string parser hand to the
  handlers, plus \<open>undefined\<close> for a property that is absent.
\<close>

datatype jsval =
    JUndefined
  | JNull
  | JBool bool
  | JNumber jsnum
  | JString jsstring
  | JArray "jsval list"
  | JObject "(jsstring \<times> jsval) list"

text \<open>A thrown JavaScript error, seen through the one property the handlers read: \<open>err.code\<close>.\<close>

datatype js_error = JsError (code: "string option")

definition TypeError :: js_error where
  "TypeError = JsError None"

subsection \<open>Number.isFinite, Math.round, Math.min, Math.max\<close>

fun isFinite :: "jsnum \<Rightarrow> bool" where
  "isFinite (Finite q) = True"
| "isFinite PosInfinity = False"
| "isFinite NegInfinity = False"
| "isFinite NaN = False"

text \<open>
  \<open>Math.round\<close> gives the integer closest to its argument, the larger one at a tie:
  \<open>\<lfloor>x + 1/2\<rfloor>\<close>, exactly (the result is always representable).
\<close>

definition Math_round :: "rat \<Rightarrow> int" where
  "Math_round q = \<lfloor>q + 1 / 2\<rfloor>"

fun Math_min :: "jsnum \<Rightarrow> jsnum \<Rightarrow> jsnum" where
  "Math_min NaN y = NaN"
| "Math_min x NaN = NaN"
| "Math_min NegInfinity y = NegInfinity"
| "Math_min x NegInfinity = NegInfinity"
| "Math_min PosInfinity y = y"
| "Math_min x PosInfinity = x"
| "Math_min (Finite a) (Finite b) = Finite (min a b)"

fun Math_max :: "jsnum \<Rightarrow> jsnum \<Rightarrow> jsnum" where
  "Math_max NaN y = NaN"
| "Math_max x NaN = NaN"
| "Math_max PosInfinity y = PosInfinity"
| "Math_max x PosInfinity = PosInfinity"
| "Math_max NegInfinity y = y"
| "Math_max x NegInfinity = x"
| "Math_max (Finite a) (Finite b) = Finite (max a b)"

subsection \<open>White space and String.prototype.trim\<close>

text \<open>
  The code units that \<open>trim\<close>, \<open>Number\<close> and \<open>parseInt\<close> skip: ECMAScript's WhiteSpace
  (TAB, VT, FF, SP, NBSP, ZWNBSP and the Unicode space separators) and LineTerminator
  (LF, CR, LS, PS).
\<close>

definition isWhiteSpace :: "16 word \<Rightarrow> bool" where
  "isWhiteSpace c \<longleftrightarrow>
     c = 0x0009 \<or> c = 0x000A \<or> c = 0x000B \<or> c = 0x000C \<or> c = 0x000D \<or> c = 0x0020 \<or>
     c = 0x00A0 \<or> c = 0x1680 \<or> (0x2000 \<le> c \<and> c \<le> 0x200A) \<or> c = 0x2028 \<or>
     c = 0x2029 \<or> c = 0x202F \<or> c = 0x205F \<or> c = 0x3000 \<or> c = 0xFEFF"

definition trimStart :: "jsstring \<Rightarrow> jsstring" where
  "trimStart s = dropWhile isWhiteSpace s"

definition trim :: "jsstring \<Rightarrow> jsstring" where
  "trim s = rev (dropWhile isWhiteSpace (rev (dropWhile isWhiteSpace s)))"

subsection \<open>Rounding a mathematical value to a double\<close>

definition pow2 :: "int \<Rightarrow> rat" where
  "pow2 e = (if 0 \<le> e then 2 ^ nat e else 1 / 2 ^ nat (- e))"

definition pow10 :: "int \<Rightarrow> rat" where
  "pow10 e = (if 0 \<le> e then 10 ^ nat e else 1 / 10 ^ nat (- e))"

text \<open>The number of digits of \<open>n\<close> in base \<open>b\<close> (0 for \<open>n \<le> 0\<close>).\<close>

function digit_count :: "int \<Rightarrow> int \<Rightarrow> nat" where
  "digit_count b n = (if 0 < n \<and> 1 < b then Suc (digit_count b (n div b)) else 0)"
  by pat_completeness auto
termination
  by (relation "measure (\<lambda>(b, n). nat n)") (auto intro: int_div_less_self)

text \<open>\<open>floor_log b q\<close> is the integer \<open>e\<close> with \<open>b\<^sup>e \<le> q < b\<^sup>e\<^sup>+\<^sup>1\<close>, for \<open>q > 0\<close> and \<open>b\<close> 2 or 10.\<close>

definition floor_log :: "int \<Rightarrow> rat \<Rightarrow> int" where
  "floor_log b q =
     (let n = fst (quotient_of q); d = snd (quotient_of q);
          pw = (\<lambda>e. if b = 2 then pow2 e else pow10 e);
          e0 = int (digit_count b n) - int (digit_count b d)
      in if q < pw (e0 - 1) then e0 - 2 else if q < pw e0 then e0 - 1 else e0)"

definition round_half_even :: "rat \<Rightarrow> int" where
  "round_half_even m =
     (let f = \<lfloor>m\<rfloor>; d = m - of_int f
      in if d < 1 / 2 then f else if 1 / 2 < d then f + 1 else if even f then f else f + 1)"

text \<open>
  Round to nearest, ties to even, in binary64: 53 significant bits, the least exponent
  -1022 (below it the spacing stays \<open>2\<^sup>-\<^sup>1\<^sup>0\<^sup>7\<^sup>4\<close>), overflow to infinity from \<open>2\<^sup>1\<^sup>0\<^sup>2\<^sup>4\<close>.
\<close>

definition RoundToDouble :: "rat \<Rightarrow> jsnum" where
  "RoundToDouble q =
     (if q = 0 then Finite 0
      else
        let a = \<bar>q\<bar>;
            e = max (floor_log 2 a) (- 1022);
            ulp = pow2 (e - 52);
            v = of_int (round_half_even (a / ulp)) * ulp
        in if pow2 1024 \<le> v then (if q < 0 then NegInfinity else PosInfinity)
           else Finite (if q < 0 then - v else v))"

subsection \<open>Digits\<close>

text \<open>The value of a digit in the given radix: \<open>0-9\<close>, then \<open>a-z\<close> or \<open>A-Z\<close> for 10 to 35.\<close>

definition digit_of :: "int \<Rightarrow> 16 word \<Rightarrow> int option" where
  "digit_of radix c =
     (let v = (if 0x30 \<le> c \<and> c \<le> 0x39 then uint c - 48
               else if 0x61 \<le> c \<and> c \<le> 0x7A then uint c - 87
               else if 0x41 \<le> c \<and> c \<le> 0x5A then uint c - 55
               else 36)
      in if v < radix then Some v else None)"

definition isDigit :: "int \<Rightarrow> 16 word \<Rightarrow> bool" where
  "isDigit radix c \<longleftrightarrow> digit_of radix c \<noteq> None"

definition digits_value :: "int \<Rightarrow> jsstring \<Rightarrow> int" where
  "digits_value radix s =
     foldl (\<lambda>a c. a * radix + (case digit_of radix c of Some v \<Rightarrow> v | None \<Rightarrow> 0)) 0 s"

text \<open>The decimal digits of a non-negative integer, most significant first.\<close>

function dec_digits :: "int \<Rightarrow> jsstring" where
  "dec_digits n =
     (if n < 10 then [word_of_int (48 + n)]
      else dec_digits (n div 10) @ [word_of_int (48 + n mod 10)])"
  by pat_completeness auto
termination
  by (relation "measure nat") (auto intro: int_div_less_self)

subsection \<open>StringToNumber: what Number does to a string\<close>

text \<open>
  \<open>ExponentPart\<close>: nothing, or \<open>e\<close>/\<open>E\<close>, an optional sign and at least one digit, up to the
  end of the string.
\<close>

definition ExponentPart :: "jsstring \<Rightarrow> int option" where
  "ExponentPart r =
     (case r of
        [] \<Rightarrow> Some 0
      | c # t \<Rightarrow>
          if c = 0x65 \<or> c = 0x45 then
            (let neg = (case t of [] \<Rightarrow> False | d # _ \<Rightarrow> d = 0x2D);
                 ds = (case t of [] \<Rightarrow> [] | d # u \<Rightarrow> if d = 0x2B \<or> d = 0x2D then u else t)
             in if ds \<noteq> [] \<and> list_all (isDigit 10) ds
                then Some (if neg then - digits_value 10 ds else digits_value 10 ds)
                else None)
          else None)"

text \<open>
  \<open>StrUnsignedDecimalLiteral\<close> without \<open>Infinity\<close>: digits, an optional point and more
  digits (at least one digit on one side of the point), an optional exponent.
\<close>

definition StrUnsignedDecimalLiteral :: "jsstring \<Rightarrow> rat option" where
  "StrUnsignedDecimalLiteral s =
     (let ip = takeWhile (isDigit 10) s;
          r1 = dropWhile (isDigit 10) s;
          dot = (case r1 of [] \<Rightarrow> False | c # _ \<Rightarrow> c = 0x2E);
          fp = (if dot then takeWhile (isDigit 10) (tl r1) else []);
          r2 = (if dot then dropWhile (isDigit 10) (tl r1) else r1)
      in if ip = [] \<and> fp = [] then None
         else (case ExponentPart r2 of
                 None \<Rightarrow> None
               | Some ex \<Rightarrow>
                   Some (of_int (digits_value 10 (ip @ fp)) * pow10 (ex - int (length fp)))))"

text \<open>\<open>NonDecimalIntegerLiteral\<close>: \<open>0x\<close>, \<open>0o\<close> or \<open>0b\<close> (either case) and at least one digit.\<close>

definition NonDecimalIntegerLiteral :: "jsstring \<Rightarrow> rat option" where
  "NonDecimalIntegerLiteral s =
     (case s of
        z # p # ds \<Rightarrow>
          (let radix = (if p = 0x78 \<or> p = 0x58 then 16
                        else if p = 0x6F \<or> p = 0x4F then 8
                        else if p = 0x62 \<or> p = 0x42 then 2 else 0)
           in if z = 0x30 \<and> radix \<noteq> 0 \<and> ds \<noteq> [] \<and> list_all (isDigit radix) ds
              then Some (of_int (digits_value radix ds)) else None)
      | _ \<Rightarrow> None)"

definition StrDecimalLiteral :: "jsstring \<Rightarrow> jsnum" where
  "StrDecimalLiteral s =
     (let neg = (case s of [] \<Rightarrow> False | c # _ \<Rightarrow> c = 0x2D);
          u = (case s of [] \<Rightarrow> [] | c # t \<Rightarrow> if c = 0x2B \<or> c = 0x2D then t else s)
      in if u = str ''Infinity'' then (if neg then NegInfinity else PosInfinity)
         else (case StrUnsignedDecimalLiteral u of
                 None \<Rightarrow> NaN
               | Some q \<Rightarrow> RoundToDouble (if neg then - q else q)))"

definition StringToNumber :: "jsstring \<Rightarrow> jsnum" where
  "StringToNumber s =
     (let t = trim s
      in if t = [] then Finite 0
         else (case NonDecimalIntegerLiteral t of
                 Some q \<Rightarrow> RoundToDouble q
               | None \<Rightarrow> StrDecimalLiteral t))"

subsection \<open>parseInt with radix 10\<close>

definition parseInt10 :: "jsstring \<Rightarrow> jsnum" where
  "parseInt10 inputString =
     (let S = trimStart inputString;
          neg = (case S of [] \<Rightarrow> False | c # _ \<Rightarrow> c = 0x2D);
          S' = (case S of [] \<Rightarrow> [] | c # t \<Rightarrow> if c = 0x2B \<or> c = 0x2D then t else S);
          Z = takeWhile (isDigit 10) S'
      in if Z = [] then NaN
         else RoundToDouble (of_int (if neg then - digits_value 10 Z else digits_value 10 Z)))"

subsection \<open>Number::toString\<close>

text \<open>
  The digits of a positive double \<open>x\<close> with \<open>10\<^sup>n\<^sup>0\<^sup>-\<^sup>1 \<le> x < 10\<^sup>n\<^sup>0\<close>: the least \<open>k\<close> and an
  integer \<open>s\<close> of \<open>k\<close> digits such that \<open>s \<times> 10\<^sup>n\<^sup>-\<^sup>k\<close> rounds to \<open>x\<close>, the candidate closest
  to \<open>x\<close> when two do.  Seventeen digits identify every double.  The result is \<open>(s, n)\<close>.
\<close>

definition digits_at :: "rat \<Rightarrow> int \<Rightarrow> nat \<Rightarrow> (int \<times> int) option" where
  "digits_at x n0 k =
     (let sc = pow10 (n0 - int k);
          lo = \<lfloor>x / sc\<rfloor>;
          hi = lo + 1;
          oklo = (RoundToDouble (of_int lo * sc) = Finite x);
          okhi = (RoundToDouble (of_int hi * sc) = Finite x);
          dlo = x - of_int lo * sc;
          dhi = of_int hi * sc - x
      in if oklo \<and> (\<not> okhi \<or> dlo < dhi \<or> (dlo = dhi \<and> even lo)) then Some (lo, n0)
         else if okhi then Some (if hi = 10 ^ k then (1, n0 + 1) else (hi, n0))
         else None)"

function shortest_digits :: "rat \<Rightarrow> int \<Rightarrow> nat \<Rightarrow> int \<times> int" where
  "shortest_digits x n0 k =
     (case digits_at x n0 k of
        Some r \<Rightarrow> r
      | None \<Rightarrow>
          if 17 \<le> k then (\<lfloor>x / pow10 (n0 - int k)\<rfloor>, n0)
          else shortest_digits x n0 (Suc k))"
  by pat_completeness auto
termination
  by (relation "measure (\<lambda>(x, n0, k). 17 - k)") auto

definition NumberToString :: "jsnum \<Rightarrow> jsstring" where
  "NumberToString m =
     (case m of
        NaN \<Rightarrow> str ''NaN''
      | PosInfinity \<Rightarrow> str ''Infinity''
      | NegInfinity \<Rightarrow> str ''-Infinity''
      | Finite q \<Rightarrow>
          if q = 0 then str ''0''
          else
            let x = \<bar>q\<bar>;
                sn = shortest_digits x (floor_log 10 x + 1) 1;
                d = dec_digits (fst sn);
                k = int (length d);
                n = snd sn;
                e = n - 1;
                ex = (if e < 0 then 0x2D else 0x2B) # dec_digits \<bar>e\<bar>;
                body =
                  (if k \<le> n \<and> n \<le> 21 then d @ replicate (nat (n - k)) 0x30
                   else if 0 < n \<and> n \<le> 21 then take (nat n) d @ 0x2E # drop (nat n) d
                   else if - 6 < n \<and> n \<le> 0 then str ''0.'' @ replicate (nat (- n)) 0x30 @ d
                   else if k = 1 then d @ 0x65 # ex
                   else take 1 d @ 0x2E # drop 1 d @ 0x65 # ex)
            in if q < 0 then 0x2D # body else body)"

subsection \<open>ToString and ToNumber on the values of a request\<close>

text \<open>
  An object made by \<open>JSON.parse\<close> inherits \<open>Object.prototype.toString\<close> and prints as
  \<open>[object Object]\<close>, unless it has an own property \<open>toString\<close>: that one is no function,
  \<open>valueOf\<close> gives back the object, and the conversion throws a TypeError.  An array prints
  its elements joined by commas, \<open>null\<close> and \<open>undefined\<close> as nothing.
\<close>

fun ToString :: "jsval \<Rightarrow> js_error + jsstring"
  and join :: "jsval list \<Rightarrow> js_error + jsstring" where
  "ToString JUndefined = Inr (str ''undefined'')"
| "ToString JNull = Inr (str ''null'')"
| "ToString (JBool b) = Inr (if b then str ''true'' else str ''false'')"
| "ToString (JNumber n) = Inr (NumberToString n)"
| "ToString (JString s) = Inr s"
| "ToString (JArray xs) = join xs"
| "ToString (JObject kvs) =
     (if map_of kvs (str ''toString'') = None then Inr (str ''[object Object]'')
      else Inl TypeError)"
| "join [] = Inr []"
| "join (x # xs) =
     (case (if x = JUndefined \<or> x = JNull then Inr [] else ToString x) of
        Inl e \<Rightarrow> Inl e
      | Inr s \<Rightarrow>
          if xs = [] then Inr s
          else (case join xs of Inl e \<Rightarrow> Inl e | Inr r \<Rightarrow> Inr (s @ 0x2C # r)))"

fun ToNumber :: "jsval \<Rightarrow> js_error + jsnum" where
  "ToNumber JUndefined = Inr NaN"
| "ToNumber JNull = Inr (Finite 0)"
| "ToNumber (JBool b) = Inr (Finite (if b then 1 else 0))"
| "ToNumber (JNumber n) = Inr n"
| "ToNumber (JString s) = Inr (StringToNumber s)"
| "ToNumber v = (case ToString v of Inl e \<Rightarrow> Inl e | Inr s \<Rightarrow> Inr (StringToNumber s))"

text \<open>Truthiness, for \<open>!v\<close> and \<open>v || d\<close>.\<close>

fun truthy :: "jsval \<Rightarrow> bool" where
  "truthy JUndefined = False"
| "truthy JNull = False"
| "truthy (JBool b) = b"
| "truthy (JNumber n) = (n \<noteq> NaN \<and> n \<noteq> Finite 0)"
| "truthy (JString s) = (s \<noteq> [])"
| "truthy (JArray xs) = True"
| "truthy (JObject kvs) = True"

text \<open>
  \<open>b.name\<close> for the property names that server.js reads, none of which a built-in
  prototype defines: the own property of an object, \<open>undefined\<close> on any other value.
\<close>

definition get_prop :: "jsval \<Rightarrow> string \<Rightarrow> jsval" where
  "get_prop b name =
     (case b of
        JObject kvs \<Rightarrow> (case map_of kvs (str name) of Some v \<Rightarrow> v | None \<Rightarrow> JUndefined)
      | _ \<Rightarrow> JUndefined)"

section \<open>server.js: normalising a field\<close>

text \<open>
  \<^verbatim>\<open>function toIntOrNull(v) {
    if (v === undefined || v === null || v === '') return null;
    const n = Number(v);
    return Number.isFinite(n) ? Math.round(n) : null; }\<close>
  The result is \<open>null\<close> or an integral number; a TypeError of \<open>Number(v)\<close> passes through.
\<close>

definition toIntOrNull :: "jsval \<Rightarrow> js_error + int option" where
  "toIntOrNull v =
     (if v = JUndefined \<or> v = JNull \<or> v = JString [] then Inr None
      else (case ToNumber v of
              Inl e \<Rightarrow> Inl e
            | Inr n \<Rightarrow> Inr (case n of Finite q \<Rightarrow> Some (Math_round q) | _ \<Rightarrow> None)))"

text \<open>
  \<^verbatim>\<open>function toFloatOrNull(v) {
    if (v === undefined || v === null || v === '') return null;
    const n = Number(v);
    return Number.isFinite(n) ? n : null; }\<close>
\<close>

definition toFloatOrNull :: "jsval \<Rightarrow> js_error + rat option" where
  "toFloatOrNull v =
     (if v = JUndefined \<or> v = JNull \<or> v = JString [] then Inr None
      else (case ToNumber v of
              Inl e \<Rightarrow> Inl e
            | Inr n \<Rightarrow> Inr (case n of Finite q \<Rightarrow> Some q | _ \<Rightarrow> None)))"

text \<open>
  \<^verbatim>\<open>function toTextOrNull(v) {
    if (v === undefined || v === null) return null;
    const s = String(v).trim();
    return s.length ? s : null; }\<close>
\<close>

definition toTextOrNull :: "jsval \<Rightarrow> js_error + jsstring option" where
  "toTextOrNull v =
     (if v = JUndefined \<or> v = JNull then Inr None
      else (case ToString v of
              Inl e \<Rightarrow> Inl e
            | Inr s0 \<Rightarrow> (let s = trim s0 in Inr (if length s \<noteq> 0 then Some s else None))))"

text \<open>Sequencing two steps of which the first may throw.\<close>

definition and_then :: "js_error + 'a \<Rightarrow> ('a \<Rightarrow> js_error + 'b) \<Rightarrow> js_error + 'b" where
  "and_then m f = (case m of Inl e \<Rightarrow> Inl e | Inr x \<Rightarrow> f x)"

section \<open>The table \<open>surveys\<close>\<close>

text \<open>
  The object \<open>data\<close> that \<open>/api/saveSurvey\<close> builds has one property for each column
  that a submission fills; a row of the table has these columns and three more
  (\<open>id SERIAL PRIMARY KEY\<close>, \<open>timestamp TIMESTAMPTZ DEFAULT NOW()\<close>,
  \<open>update_count INTEGER DEFAULT 0\<close>).  A column holds \<open>NULL\<close> (\<open>None\<close>) or a value of its
  declared type: \<open>TEXT\<close> a string, \<open>INTEGER\<close> and \<open>BIGINT\<close> an integer, \<open>REAL\<close> a number.
  \<open>store_identifier\<close> is \<open>NOT NULL\<close>.  The table keeps a value as it was passed; a value
  that does not fit the range of its column is refused by the storage engine, and its
  refusals are the faults of a \<open>world\<close> below.

  The code meets these columns in two forms.  In the object \<open>data\<close> and in the table a
  \<open>BIGINT\<close> column is an integer and the \<open>REAL\<close> column the number that was passed.  In a
  row that node-postgres hands to a handler a \<open>BIGINT\<close> column is a string and the \<open>REAL\<close>
  column the JavaScript number that the driver reads from it.  The record has the type of
  a \<open>BIGINT\<close> column and the type of the \<open>REAL\<close> column as parameters for this.
\<close>

record ('big, 'real) survey_data =
  store_identifier :: jsstring
  store_name :: "jsstring option"
  business_type :: "jsstring option"
  store_area :: "int option"
  business_circle :: "jsstring option"
  decoration_level :: "jsstring option"
  monthly_revenue :: "'big option"
  daily_customers :: "int option"
  seats :: "int option"
  food_cost :: "'big option"
  labor_cost :: "'big option"
  rent_cost :: "'big option"
  online_revenue :: "'big option"
  main_platforms :: "jsstring option"
  marketing_situation :: "jsstring option"
  total_customers :: "int option"
  repeat_customers :: "int option"
  utility_cost :: "'big option"
  marketing_cost :: "'big option"
  average_rating :: "'real option"
  total_reviews :: "int option"
  bad_reviews :: "int option"
  service_bad_reviews :: "int option"
  taste_bad_reviews :: "int option"
  short_video_count :: "int option"
  live_stream_count :: "int option"
  user_agent :: "jsstring option"
  ip :: "jsstring option"

record ('big, 'real) survey_row = "('big, 'real) survey_data" +
  row_id :: int
  timestamp :: "int option"
  update_count :: "int option"

text \<open>
  The object \<open>data\<close> of \<open>/api/saveSurvey\<close>, a row of the table, and a row of a query's
  result as node-postgres gives it to JavaScript.
\<close>

type_synonym data_object = "(int, rat) survey_data"

type_synonym stored_row = "(int, rat) survey_row"

type_synonym result_row = "(jsstring, jsnum) survey_row"

text \<open>
  The database: the rows of \<open>surveys\<close> and the last value drawn from the sequence behind
  \<open>id SERIAL\<close>.
\<close>

record database =
  surveys :: "stored_row list"
  surveys_id_seq :: int

text \<open>
  What lies outside a request and its database: the time \<open>NOW()\<close> of its statements; for
  the \<open>k\<close>-th \<open>pool.query\<close> of the request the error with which it is rejected for a
  reason of the storage engine's own (no connection, a value that does not fit its column),
  if any; and what the requests served at the same time do to the database while the
  handler awaits, between its first statement and its second.  A rejected statement has no
  effect.
\<close>

record world =
  now :: int
  fault :: "nat \<Rightarrow> js_error option"
  meanwhile :: "database \<Rightarrow> database"

definition pool_query ::
  "js_error option \<Rightarrow> (database \<Rightarrow> (js_error + 'r) \<times> database) \<Rightarrow> database \<Rightarrow>
     (js_error + 'r) \<times> database" where
  "pool_query f statement db = (case f of Some e \<Rightarrow> (Inl e, db) | None \<Rightarrow> statement db)"

text \<open>SQLSTATE 23505, \<open>unique_violation\<close>.\<close>

definition unique_violation :: js_error where
  "unique_violation = JsError (Some ''23505'')"

subsection \<open>A row as node-postgres hands it to a handler\<close>

text \<open>
  Postgres sends the columns of a result as text, and node-postgres turns the text into a
  JavaScript value by the type of the column: \<open>TEXT\<close> is the string, \<open>INTEGER\<close> a number
  (\<open>parseInt\<close>), \<open>REAL\<close> a number (\<open>parseFloat\<close>), \<open>TIMESTAMPTZ\<close> a \<open>Date\<close>, and \<open>BIGINT\<close>
  stays the string that was sent, since not every 64-bit integer is a double.  server.js
  relies on the last at line 629, where it applies \<open>parseInt\<close> to a \<open>COUNT(*)\<close>, a \<open>BIGINT\<close>.
  \<open>NULL\<close> is \<open>null\<close> for every type.

  The text of a \<open>BIGINT\<close>: its decimal digits, after a minus sign when it is negative.
\<close>

definition int8_text :: "int \<Rightarrow> jsstring" where
  "int8_text n = (if n < 0 then 0x2D # dec_digits (- n) else dec_digits n)"

text \<open>
  A \<open>REAL\<close> column keeps a binary32.  Round to nearest, ties to even, in binary32: 24
  significant bits, the least exponent -126, overflow to infinity from \<open>2\<^sup>1\<^sup>2\<^sup>8\<close>.
\<close>

definition RoundToFloat4 :: "rat \<Rightarrow> jsnum" where
  "RoundToFloat4 q =
     (if q = 0 then Finite 0
      else
        let a = \<bar>q\<bar>;
            e = max (floor_log 2 a) (- 126);
            ulp = pow2 (e - 23);
            v = of_int (round_half_even (a / ulp)) * ulp
        in if pow2 128 \<le> v then (if q < 0 then NegInfinity else PosInfinity)
           else Finite (if q < 0 then - v else v))"

text \<open>
  The digits that Postgres prints for a positive binary32 \<open>x\<close>: as for a double above, the
  least number of digits that reads back as \<open>x\<close>, with binary32 in the place of binary64.
  Nine digits identify every binary32.
\<close>

definition float4_digits_at :: "rat \<Rightarrow> int \<Rightarrow> nat \<Rightarrow> (int \<times> int) option" where
  "float4_digits_at x n0 k =
     (let sc = pow10 (n0 - int k);
          lo = \<lfloor>x / sc\<rfloor>;
          hi = lo + 1;
          oklo = (RoundToFloat4 (of_int lo * sc) = Finite x);
          okhi = (RoundToFloat4 (of_int hi * sc) = Finite x);
          dlo = x - of_int lo * sc;
          dhi = of_int hi * sc - x
      in if oklo \<and> (\<not> okhi \<or> dlo < dhi \<or> (dlo = dhi \<and> even lo)) then Some (lo, n0)
         else if okhi then Some (if hi = 10 ^ k then (1, n0 + 1) else (hi, n0))
         else None)"

function float4_shortest_digits :: "rat \<Rightarrow> int \<Rightarrow> nat \<Rightarrow> int \<times> int" where
  "float4_shortest_digits x n0 k =
     (case float4_digits_at x n0 k of
        Some r \<Rightarrow> r
      | None \<Rightarrow>
          if 9 \<le> k then (\<lfloor>x / pow10 (n0 - int k)\<rfloor>, n0)
          else float4_shortest_digits x n0 (Suc k))"
  by pat_completeness auto
termination
  by (relation "measure (\<lambda>(x, n0, k). 9 - k)") auto

text \<open>The number that the digits \<open>s\<close> with the exponent \<open>n\<close> denote: \<open>0.s \<times> 10\<^sup>n\<close>.\<close>

definition decimal_of :: "int \<times> int \<Rightarrow> rat" where
  "decimal_of sn = of_int (fst sn) * pow10 (snd sn - int (digit_count 10 (fst sn)))"

text \<open>
  Writing: the driver sends the number \<open>q\<close>, a double, as the text \<open>String(q)\<close>, and Postgres
  reads the decimal of this text as the nearest binary32.  (Postgres refuses a text that
  overflows or underflows binary32; no row holds such a number.)
\<close>

definition float4_in :: "rat \<Rightarrow> jsnum" where
  "float4_in q =
     (if q = 0 then Finite 0
      else
        let x = \<bar>q\<bar>;
            D = decimal_of (shortest_digits x (floor_log 10 x + 1) 1)
        in RoundToFloat4 (if q < 0 then - D else D))"

text \<open>
  Reading: Postgres prints the binary32 \<open>x\<close> with its shortest digits, and \<open>parseFloat\<close>
  reads the decimal of this text as the nearest double.
\<close>

definition float4_read :: "rat \<Rightarrow> jsnum" where
  "float4_read x =
     (if x = 0 then Finite 0
      else
        let a = \<bar>x\<bar>;
            D = decimal_of (float4_shortest_digits a (floor_log 10 a + 1) 1)
        in RoundToDouble (if x < 0 then - D else D))"

text \<open>
  The number that a handler reads from a \<open>REAL\<close> column to which \<open>q\<close> was written.  The table
  of the model keeps \<open>q\<close> itself, so the precision of the column is applied here.
\<close>

definition real_column :: "rat \<Rightarrow> jsnum" where
  "real_column q = (case float4_in q of Finite x \<Rightarrow> float4_read x | m \<Rightarrow> m)"

text \<open>The row of a result that node-postgres makes of a row of the table.\<close>

definition read_row :: "stored_row \<Rightarrow> result_row" where
  "read_row r =
     \<lparr> store_identifier = store_identifier r,
       store_name = store_name r,
       business_type = business_type r,
       store_area = store_area r,
       business_circle = business_circle r,
       decoration_level = decoration_level r,
       monthly_revenue = map_option int8_text (monthly_revenue r),
       daily_customers = daily_customers r,
       seats = seats r,
       food_cost = map_option int8_text (food_cost r),
       labor_cost = map_option int8_text (labor_cost r),
       rent_cost = map_option int8_text (rent_cost r),
       online_revenue = map_option int8_text (online_revenue r),
       main_platforms = main_platforms r,
       marketing_situation = marketing_situation r,
       total_customers = total_customers r,
       repeat_customers = repeat_customers r,
       utility_cost = map_option int8_text (utility_cost r),
       marketing_cost = map_option int8_text (marketing_cost r),
       average_rating = map_option real_column (average_rating r),
       total_reviews = total_reviews r,
       bad_reviews = bad_reviews r,
       service_bad_reviews = service_bad_reviews r,
       taste_bad_reviews = taste_bad_reviews r,
       short_video_count = short_video_count r,
       live_stream_count = live_stream_count r,
       user_agent = user_agent r,
       ip = ip r,
       row_id = row_id r,
       timestamp = timestamp r,
       update_count = update_count r \<rparr>"

subsection \<open>The statements of server.js\<close>

text \<open>\<^verbatim>\<open>SELECT update_count FROM surveys WHERE store_identifier = $1\<close>\<close>

definition select_update_count ::
  "jsstring \<Rightarrow> database \<Rightarrow> (js_error + int option list) \<times> database" where
  "select_update_count p1 db =
     (Inr (map update_count (filter (\<lambda>r. store_identifier r = p1) (surveys db))), db)"

text \<open>\<^verbatim>\<open>SELECT * FROM surveys WHERE store_identifier = $1\<close>\<close>

definition select_by_identifier ::
  "jsstring \<Rightarrow> database \<Rightarrow> (js_error + result_row list) \<times> database" where
  "select_by_identifier p1 db =
     (Inr (map read_row (filter (\<lambda>r. store_identifier r = p1) (surveys db))), db)"

text \<open>\<^verbatim>\<open>SELECT id, update_count FROM surveys WHERE store_identifier = $1\<close>\<close>

definition select_id_update_count ::
  "jsstring \<Rightarrow> database \<Rightarrow> (js_error + (int \<times> int option) list) \<times> database" where
  "select_id_update_count p1 db =
     (Inr (map (\<lambda>r. (row_id r, update_count r))
             (filter (\<lambda>r. store_identifier r = p1) (surveys db))), db)"

text \<open>
  \<^verbatim>\<open>INSERT INTO surveys (
     store_identifier, update_count, store_name, business_type, store_area,
     business_circle, decoration_level, monthly_revenue, daily_customers, seats,
     food_cost, labor_cost, rent_cost, online_revenue, main_platforms,
     marketing_situation, total_customers, repeat_customers, utility_cost,
     marketing_cost, average_rating, total_reviews, bad_reviews,
     service_bad_reviews, taste_bad_reviews, short_video_count,
     live_stream_count, user_agent, ip
   ) VALUES ($1, ..., $29) RETURNING id, timestamp\<close>
  The arguments \<open>p1\<close> to \<open>p29\<close> are the parameters \<open>$1\<close> to \<open>$29\<close>.  The row takes the next
  value of the sequence as its \<open>id\<close> (a value drawn stays drawn when the statement fails)
  and \<open>NOW()\<close> as its \<open>timestamp\<close>; the statement fails with \<open>unique_violation\<close> when a row
  has this \<open>id\<close> (\<open>PRIMARY KEY\<close>) or this \<open>store_identifier\<close> (\<open>UNIQUE\<close>).
\<close>

definition insert_survey ::
  "jsstring \<Rightarrow> int option \<Rightarrow> jsstring option \<Rightarrow> jsstring option \<Rightarrow> int option \<Rightarrow>
   jsstring option \<Rightarrow> jsstring option \<Rightarrow> int option \<Rightarrow> int option \<Rightarrow> int option \<Rightarrow>
   int option \<Rightarrow> int option \<Rightarrow> int option \<Rightarrow> int option \<Rightarrow> jsstring option \<Rightarrow>
   jsstring option \<Rightarrow> int option \<Rightarrow> int option \<Rightarrow> int option \<Rightarrow>
   int option \<Rightarrow> rat option \<Rightarrow> int option \<Rightarrow> int option \<Rightarrow>
   int option \<Rightarrow> int option \<Rightarrow> int option \<Rightarrow>
   int option \<Rightarrow> jsstring option \<Rightarrow> jsstring option \<Rightarrow>
   int \<Rightarrow> database \<Rightarrow> (js_error + (int \<times> int option) list) \<times> database" where
  "insert_survey p1 p2 p3 p4 p5 p6 p7 p8 p9 p10 p11 p12 p13 p14 p15 p16 p17 p18 p19 p20
       p21 p22 p23 p24 p25 p26 p27 p28 p29 NOW db =
     (let nextval = surveys_id_seq db + 1;
          row = \<lparr> store_identifier = p1, store_name = p3, business_type = p4, store_area = p5,
                  business_circle = p6, decoration_level = p7, monthly_revenue = p8,
                  daily_customers = p9, seats = p10, food_cost = p11, labor_cost = p12,
                  rent_cost = p13, online_revenue = p14, main_platforms = p15,
                  marketing_situation = p16, total_customers = p17, repeat_customers = p18,
                  utility_cost = p19, marketing_cost = p20, average_rating = p21,
                  total_reviews = p22, bad_reviews = p23, service_bad_reviews = p24,
                  taste_bad_reviews = p25, short_video_count = p26, live_stream_count = p27,
                  user_agent = p28, ip = p29,
                  row_id = nextval, timestamp = Some NOW, update_count = p2 \<rparr>
      in if \<exists>r \<in> set (surveys db). row_id r = nextval \<or> store_identifier r = p1
         then (Inl unique_violation, db\<lparr> surveys_id_seq := nextval \<rparr>)
         else (Inr [(nextval, Some NOW)],
               db\<lparr> surveys := surveys db @ [row], surveys_id_seq := nextval \<rparr>))"

text \<open>
  \<^verbatim>\<open>UPDATE surveys SET
     store_name=$1, business_type=$2, store_area=$3, business_circle=$4,
     decoration_level=$5, monthly_revenue=$6, daily_customers=$7, seats=$8,
     food_cost=$9, labor_cost=$10, rent_cost=$11, online_revenue=$12,
     main_platforms=$13, marketing_situation=$14, total_customers=$15,
     repeat_customers=$16, utility_cost=$17, marketing_cost=$18,
     average_rating=$19, total_reviews=$20, bad_reviews=$21,
     service_bad_reviews=$22, taste_bad_reviews=$23, short_video_count=$24,
     live_stream_count=$25, update_count=$26, timestamp=NOW(),
     user_agent=$27, ip=$28
   WHERE store_identifier=$29
   RETURNING id, timestamp\<close>
\<close>

definition update_row ::
  "jsstring option \<Rightarrow> jsstring option \<Rightarrow> int option \<Rightarrow> jsstring option \<Rightarrow>
   jsstring option \<Rightarrow> int option \<Rightarrow> int option \<Rightarrow> int option \<Rightarrow>
   int option \<Rightarrow> int option \<Rightarrow> int option \<Rightarrow> int option \<Rightarrow>
   jsstring option \<Rightarrow> jsstring option \<Rightarrow> int option \<Rightarrow>
   int option \<Rightarrow> int option \<Rightarrow> int option \<Rightarrow>
   rat option \<Rightarrow> int option \<Rightarrow> int option \<Rightarrow>
   int option \<Rightarrow> int option \<Rightarrow> int option \<Rightarrow>
   int option \<Rightarrow> int option \<Rightarrow> jsstring option \<Rightarrow> jsstring option \<Rightarrow>
   int \<Rightarrow> stored_row \<Rightarrow> stored_row" where
  "update_row p1 p2 p3 p4 p5 p6 p7 p8 p9 p10 p11 p12 p13 p14 p15 p16 p17 p18 p19 p20
       p21 p22 p23 p24 p25 p26 p27 p28 NOW r =
     r\<lparr> store_name := p1, business_type := p2, store_area := p3, business_circle := p4,
        decoration_level := p5, monthly_revenue := p6, daily_customers := p7, seats := p8,
        food_cost := p9, labor_cost := p10, rent_cost := p11, online_revenue := p12,
        main_platforms := p13, marketing_situation := p14, total_customers := p15,
        repeat_customers := p16, utility_cost := p17, marketing_cost := p18,
        average_rating := p19, total_reviews := p20, bad_reviews := p21,
        service_bad_reviews := p22, taste_bad_reviews := p23, short_video_count := p24,
        live_stream_count := p25, update_count := p26, timestamp := Some NOW,
        user_agent := p27, ip := p28 \<rparr>"

definition update_survey ::
  "jsstring option \<Rightarrow> jsstring option \<Rightarrow> int option \<Rightarrow> jsstring option \<Rightarrow>
   jsstring option \<Rightarrow> int option \<Rightarrow> int option \<Rightarrow> int option \<Rightarrow>
   int option \<Rightarrow> int option \<Rightarrow> int option \<Rightarrow> int option \<Rightarrow>
   jsstring option \<Rightarrow> jsstring option \<Rightarrow> int option \<Rightarrow>
   int option \<Rightarrow> int option \<Rightarrow> int option \<Rightarrow>
   rat option \<Rightarrow> int option \<Rightarrow> int option \<Rightarrow>
   int option \<Rightarrow> int option \<Rightarrow> int option \<Rightarrow>
   int option \<Rightarrow> int option \<Rightarrow> jsstring option \<Rightarrow> jsstring option \<Rightarrow>
   jsstring \<Rightarrow> int \<Rightarrow> database \<Rightarrow> (js_error + (int \<times> int option) list) \<times> database" where
  "update_survey p1 p2 p3 p4 p5 p6 p7 p8 p9 p10 p11 p12 p13 p14 p15 p16 p17 p18 p19 p20
       p21 p22 p23 p24 p25 p26 p27 p28 p29 NOW db =
     (let hit = (\<lambda>r. store_identifier r = p29);
          set_row = update_row p1 p2 p3 p4 p5 p6 p7 p8 p9 p10 p11 p12 p13 p14 p15 p16 p17
                      p18 p19 p20 p21 p22 p23 p24 p25 p26 p27 p28 NOW
      in (Inr (map (\<lambda>r. (row_id r, Some NOW)) (filter hit (surveys db))),
          db\<lparr> surveys := map (\<lambda>r. if hit r then set_row r else r) (surveys db) \<rparr>))"

text \<open>
  A parameter of \<open>LIMIT\<close> or \<open>OFFSET\<close> is a number of JavaScript, sent as its text and read
  by the storage engine as a \<open>bigint\<close>: any text but that of an integer is refused (22P02), an
  integer beyond 64 bits too (22003).
\<close>

definition bigint_param :: "jsnum \<Rightarrow> js_error + int" where
  "bigint_param n =
     (case n of
        Finite q \<Rightarrow>
          if of_int \<lfloor>q\<rfloor> = q \<and> \<bar>q\<bar> < 10 ^ 21 then
            (if - (2 ^ 63) \<le> \<lfloor>q\<rfloor> \<and> \<lfloor>q\<rfloor> < 2 ^ 63 then Inr \<lfloor>q\<rfloor>
             else Inl (JsError (Some ''22003'')))
          else Inl (JsError (Some ''22P02''))
      | _ \<Rightarrow> Inl (JsError (Some ''22P02'')))"

text \<open>
  \<^verbatim>\<open>SELECT * FROM surveys ORDER BY id DESC LIMIT $1 OFFSET $2\<close>
  A negative \<open>LIMIT\<close> (2201W) or \<open>OFFSET\<close> (2201X) is an error of the storage engine.
\<close>

definition select_page ::
  "jsnum \<Rightarrow> jsnum \<Rightarrow> database \<Rightarrow> (js_error + stored_row list) \<times> database" where
  "select_page p1 p2 db =
     (case bigint_param p1 of
        Inl e \<Rightarrow> (Inl e, db)
      | Inr limit \<Rightarrow>
          (case bigint_param p2 of
             Inl e \<Rightarrow> (Inl e, db)
           | Inr offset \<Rightarrow>
               if limit < 0 then (Inl (JsError (Some ''2201W'')), db)
               else if offset < 0 then (Inl (JsError (Some ''2201X'')), db)
               else (Inr (take (nat limit) (drop (nat offset)
                            (rev (sort_key row_id (surveys db))))), db)))"

text \<open>\<^verbatim>\<open>SELECT COUNT(*) as total FROM surveys\<close>\<close>

definition select_count :: "database \<Rightarrow> (js_error + int list) \<times> database" where
  "select_count db = (Inr [int (length (surveys db))], db)"

text \<open>\<^verbatim>\<open>SELECT * FROM surveys ORDER BY id ASC\<close>\<close>

definition select_all :: "database \<Rightarrow> (js_error + stored_row list) \<times> database" where
  "select_all db = (Inr (sort_key row_id (surveys db)), db)"

section \<open>Requests and responses\<close>

text \<open>
  A request to \<open>POST /api/saveSurvey\<close>: \<open>req.body\<close>, \<open>req.get('user-agent')\<close> and \<open>req.ip\<close>
  (the last two a string or \<open>undefined\<close>).
\<close>

record request =
  body :: jsval
  user_agent_header :: "jsstring option"
  req_ip :: "jsstring option"

text \<open>
  A request to an admin route: \<open>req.get('x-admin-key')\<close> and \<open>req.query\<close>.
\<close>

record admin_request =
  x_admin_key :: "jsstring option"
  query :: jsval

text \<open>
  The object that \<open>GET /api/survey/data/:identifier\<close> sends.  A property has the type of
  the value that the handler takes from the row of the result: a string or \<open>null\<close> for a
  \<open>TEXT\<close> and for a \<open>BIGINT\<close> column, a number or \<open>null\<close> for an \<open>INTEGER\<close> and for the \<open>REAL\<close>
  column.
\<close>

record survey_json =
  storeIdentifier :: jsstring
  storeName :: "jsstring option"
  businessType :: "jsstring option"
  storeArea :: "int option"
  businessCircle :: "jsstring option"
  decorationLevel :: "jsstring option"
  monthlyRevenue :: "jsstring option"
  dailyCustomers :: "int option"
  seatsJson :: "int option"
  foodCost :: "jsstring option"
  laborCost :: "jsstring option"
  rentCost :: "jsstring option"
  onlineRevenue :: "jsstring option"
  mainPlatforms :: "jsstring option"
  marketingSituation :: "jsstring option"
  totalCustomers :: "int option"
  repeatCustomers :: "int option"
  utilityCost :: "jsstring option"
  marketingCost :: "jsstring option"
  averageRating :: "jsnum option"
  totalReviews :: "int option"
  badReviews :: "int option"
  serviceBadReviews :: "int option"
  tasteBadReviews :: "int option"
  shortVideoCount :: "int option"
  liveStreamCount :: "int option"

text \<open>
  What a handler sends: \<open>res.status(n).json({ error: msg })\<close>, or with status 200
  \<open>{ ok: true, id, timestamp }\<close>, \<open>{ exists, update_count }\<close>, the object above,
  \<open>{ rows, limit, offset, total, count }\<close>, or the CSV document, which has a header line and
  then one line for each row of the list, in its order (the text of a line is not modelled).
  The rows of a page and of the document are given as the rows of the table that they show.
\<close>

datatype response =
    ErrorResponse nat string
  | SaveResponse int "int option"
  | StatusResponse bool "int option"
  | DataResponse survey_json
  | ListResponse "stored_row list" jsnum jsnum int nat
  | CsvResponse "stored_row list"

text \<open>The error kinds of the specification, as the responses of server.js.\<close>

definition ValidationError :: response where
  "ValidationError = ErrorResponse 400 ''Store identifier is required''"

definition LimitReached :: response where
  "LimitReached = ErrorResponse 403 ''Update limit reached. Maximum 3 updates allowed.''"

definition Conflict :: response where
  "Conflict = ErrorResponse 409 ''Store identifier already exists''"

definition NotFound :: response where
  "NotFound = ErrorResponse 404 ''Survey not found''"

definition StorageUnavailable :: response where
  "StorageUnavailable = ErrorResponse 500 ''Database error''"

section \<open>POST /api/saveSurvey\<close>

text \<open>\<open>x || d\<close> for a header or \<open>req.ip\<close>: a string that is present and not empty, else \<open>d\<close>.\<close>

definition or_else :: "jsstring option \<Rightarrow> 'a \<Rightarrow> (jsstring \<Rightarrow> 'a) \<Rightarrow> 'a" where
  "or_else x d f = (case x of None \<Rightarrow> d | Some s \<Rightarrow> if s = [] then d else f s)"

text \<open>\<open>const b = req.body || {}\<close>\<close>

definition body_of :: "request \<Rightarrow> jsval" where
  "body_of req = (if truthy (body req) then body req else JObject [])"

text \<open>The object \<open>data\<close> (lines 507 to 536), its properties evaluated in their order.\<close>

definition build_data :: "request \<Rightarrow> jsval \<Rightarrow> jsstring \<Rightarrow> js_error + data_object" where
  "build_data req b store_id =
     and_then (toTextOrNull (get_prop b ''storeName'')) (\<lambda>v_store_name.
     and_then (toTextOrNull (get_prop b ''businessType'')) (\<lambda>v_business_type.
     and_then (toIntOrNull (get_prop b ''storeArea'')) (\<lambda>v_store_area.
     and_then (toTextOrNull (get_prop b ''businessCircle'')) (\<lambda>v_business_circle.
     and_then (toTextOrNull (get_prop b ''decorationLevel'')) (\<lambda>v_decoration_level.
     and_then (toIntOrNull (get_prop b ''monthlyRevenue'')) (\<lambda>v_monthly_revenue.
     and_then (toIntOrNull (get_prop b ''dailyCustomers'')) (\<lambda>v_daily_customers.
     and_then (toIntOrNull (get_prop b ''seats'')) (\<lambda>v_seats.
     and_then (toIntOrNull (get_prop b ''foodCost'')) (\<lambda>v_food_cost.
     and_then (toIntOrNull (get_prop b ''laborCost'')) (\<lambda>v_labor_cost.
     and_then (toIntOrNull (get_prop b ''rentCost'')) (\<lambda>v_rent_cost.
     and_then (toIntOrNull (get_prop b ''onlineRevenue'')) (\<lambda>v_online_revenue.
     and_then (toTextOrNull (get_prop b ''mainPlatforms'')) (\<lambda>v_main_platforms.
     and_then (toTextOrNull (get_prop b ''marketingSituation'')) (\<lambda>v_marketing_situation.
     and_then (toIntOrNull (get_prop b ''totalCustomers'')) (\<lambda>v_total_customers.
     and_then (toIntOrNull (get_prop b ''repeatCustomers'')) (\<lambda>v_repeat_customers.
     and_then (toIntOrNull (get_prop b ''utilityCost'')) (\<lambda>v_utility_cost.
     and_then (toIntOrNull (get_prop b ''marketingCost'')) (\<lambda>v_marketing_cost.
     and_then (toFloatOrNull (get_prop b ''averageRating'')) (\<lambda>v_average_rating.
     and_then (toIntOrNull (get_prop b ''totalReviews'')) (\<lambda>v_total_reviews.
     and_then (toIntOrNull (get_prop b ''badReviews'')) (\<lambda>v_bad_reviews.
     and_then (toIntOrNull (get_prop b ''serviceBadReviews'')) (\<lambda>v_service_bad_reviews.
     and_then (toIntOrNull (get_prop b ''tasteBadReviews'')) (\<lambda>v_taste_bad_reviews.
     and_then (toIntOrNull (get_prop b ''shortVideoCount'')) (\<lambda>v_short_video_count.
     and_then (toIntOrNull (get_prop b ''liveStreamCount'')) (\<lambda>v_live_stream_count.
     Inr \<lparr> store_identifier = store_id,
           store_name = v_store_name,
           business_type = v_business_type,
           store_area = v_store_area,
           business_circle = v_business_circle,
           decoration_level = v_decoration_level,
           monthly_revenue = v_monthly_revenue,
           daily_customers = v_daily_customers,
           seats = v_seats,
           food_cost = v_food_cost,
           labor_cost = v_labor_cost,
           rent_cost = v_rent_cost,
           online_revenue = v_online_revenue,
           main_platforms = v_main_platforms,
           marketing_situation = v_marketing_situation,
           total_customers = v_total_customers,
           repeat_customers = v_repeat_customers,
           utility_cost = v_utility_cost,
           marketing_cost = v_marketing_cost,
           average_rating = v_average_rating,
           total_reviews = v_total_reviews,
           bad_reviews = v_bad_reviews,
           service_bad_reviews = v_service_bad_reviews,
           taste_bad_reviews = v_taste_bad_reviews,
           short_video_count = v_short_video_count,
           live_stream_count = v_live_stream_count,
           user_agent = or_else (user_agent_header req) None Some,
           ip = Some (or_else (req_ip req) (str ''unknown'') id) \<rparr>
     )))))))))))))))))))))))))"

text \<open>
  \<open>res.json({ ok: true, id: result.rows[0].id, timestamp: result.rows[0].timestamp })\<close>:
  reading \<open>id\<close> of a first row that is not there throws a TypeError.
\<close>

definition send_saved ::
  "(int \<times> int option) list \<Rightarrow> database \<Rightarrow> (js_error + response) \<times> database" where
  "send_saved rows db =
     (case rows of
        [] \<Rightarrow> (Inl TypeError, db)
      | (i, t) # _ \<Rightarrow> (Inr (SaveResponse i t), db))"

text \<open>
  \<open>currentCount >= 3\<close> and \<open>currentCount + 1\<close> on the \<open>update_count\<close> of a row, which is a
  number or \<open>null\<close>; \<open>null\<close> counts as 0 in both.
\<close>

definition count_ge :: "int option \<Rightarrow> int \<Rightarrow> bool" where
  "count_ge c n = ((case c of None \<Rightarrow> 0 | Some k \<Rightarrow> k) \<ge> n)"

definition count_plus :: "int option \<Rightarrow> int \<Rightarrow> int" where
  "count_plus c n = (case c of None \<Rightarrow> 0 | Some k \<Rightarrow> k) + n"

text \<open>
  Lines 538 to 611: what the handler does with the rows of its check, on the database as it
  is when the second statement runs.
\<close>

definition save_checked ::
  "world \<Rightarrow> data_object \<Rightarrow> (int \<times> int option) list \<Rightarrow> database \<Rightarrow>
     (js_error + response) \<times> database" where
  "save_checked w data checkResult db =
     (case checkResult of
        [] \<Rightarrow>
          (case pool_query (fault w 1)
                  (insert_survey
                     (store_identifier data) (Some 0) (store_name data) (business_type data)
                     (store_area data) (business_circle data) (decoration_level data)
                     (monthly_revenue data) (daily_customers data) (seats data)
                     (food_cost data) (labor_cost data) (rent_cost data)
                     (online_revenue data) (main_platforms data) (marketing_situation data)
                     (total_customers data) (repeat_customers data) (utility_cost data)
                     (marketing_cost data) (average_rating data) (total_reviews data)
                     (bad_reviews data) (service_bad_reviews data) (taste_bad_reviews data)
                     (short_video_count data) (live_stream_count data) (user_agent data)
                     (ip data) (now w)) db of
             (Inl e, db') \<Rightarrow> (Inl e, db')
           | (Inr result, db') \<Rightarrow> send_saved result db')
      | (i, currentCount) # _ \<Rightarrow>
          if count_ge currentCount 3 then (Inr LimitReached, db)
          else
            (case pool_query (fault w 1)
                    (update_survey
                       (store_name data) (business_type data) (store_area data)
                       (business_circle data) (decoration_level data) (monthly_revenue data)
                       (daily_customers data) (seats data) (food_cost data) (labor_cost data)
                       (rent_cost data) (online_revenue data) (main_platforms data)
                       (marketing_situation data) (total_customers data)
                       (repeat_customers data) (utility_cost data) (marketing_cost data)
                       (average_rating data) (total_reviews data) (bad_reviews data)
                       (service_bad_reviews data) (taste_bad_reviews data)
                       (short_video_count data) (live_stream_count data)
                       (Some (count_plus currentCount 1)) (user_agent data) (ip data)
                       (store_identifier data) (now w)) db of
               (Inl e, db') \<Rightarrow> (Inl e, db')
             | (Inr result, db') \<Rightarrow> send_saved result db'))"

text \<open>
  The body of the \<open>try\<close> (lines 493 to 611); \<open>store_id\<close> is the constant \<open>storeIdentifier\<close>
  of the source, which \<open>!storeIdentifier\<close> finds \<open>null\<close> or empty.
\<close>

definition saveSurvey_try ::
  "world \<Rightarrow> request \<Rightarrow> database \<Rightarrow> (js_error + response) \<times> database" where
  "saveSurvey_try w req db =
     (let b = body_of req
      in case toTextOrNull (get_prop b ''storeIdentifier'') of
           Inl e \<Rightarrow> (Inl e, db)
         | Inr v \<Rightarrow>
             (case v of
                None \<Rightarrow> (Inr ValidationError, db)
              | Some store_id \<Rightarrow>
                  if store_id = [] then (Inr ValidationError, db)
                  else
                    (case pool_query (fault w 0) (select_id_update_count store_id) db of
                       (Inl e, db1) \<Rightarrow> (Inl e, db1)
                     | (Inr checkResult, db1) \<Rightarrow>
                         (case build_data req b store_id of
                            Inl e \<Rightarrow> (Inl e, meanwhile w db1)
                          | Inr data \<Rightarrow>
                              save_checked w data checkResult (meanwhile w db1)))))"

text \<open>
  The \<open>catch\<close> (lines 613 to 619): 409 when \<open>err.code === '23505'\<close>, 500 for any other error.
\<close>

definition saveSurvey_catch :: "js_error \<Rightarrow> response" where
  "saveSurvey_catch err = (if code err = Some ''23505'' then Conflict else StorageUnavailable)"

definition saveSurvey :: "world \<Rightarrow> request \<Rightarrow> database \<Rightarrow> response \<times> database" where
  "saveSurvey w req db =
     (case saveSurvey_try w req db of
        (Inl err, db') \<Rightarrow> (saveSurvey_catch err, db')
      | (Inr res, db') \<Rightarrow> (res, db'))"

section \<open>GET /api/survey/status/:identifier and GET /api/survey/data/:identifier\<close>

definition survey_status :: "world \<Rightarrow> jsstring \<Rightarrow> database \<Rightarrow> response \<times> database" where
  "survey_status w identifier db =
     (if identifier = [] then (ErrorResponse 400 ''Identifier is required'', db)
      else
        (case pool_query (fault w 0) (select_update_count identifier) db of
           (Inl err, db') \<Rightarrow> (StorageUnavailable, db')
         | (Inr rows, db') \<Rightarrow>
             (case rows of
                [] \<Rightarrow> (StatusResponse False (Some 0), db')
              | c # _ \<Rightarrow> (StatusResponse True c, db'))))"

text \<open>
  Lines 454 to 483: from the columns of the row, \<open>result.rows[0]\<close>, to the properties of the
  response.
\<close>

definition row_json :: "result_row \<Rightarrow> survey_json" where
  "row_json data =
     \<lparr> storeIdentifier = store_identifier data,
       storeName = store_name data,
       businessType = business_type data,
       storeArea = store_area data,
       businessCircle = business_circle data,
       decorationLevel = decoration_level data,
       monthlyRevenue = monthly_revenue data,
       dailyCustomers = daily_customers data,
       seatsJson = seats data,
       foodCost = food_cost data,
       laborCost = labor_cost data,
       rentCost = rent_cost data,
       onlineRevenue = online_revenue data,
       mainPlatforms = main_platforms data,
       marketingSituation = marketing_situation data,
       totalCustomers = total_customers data,
       repeatCustomers = repeat_customers data,
       utilityCost = utility_cost data,
       marketingCost = marketing_cost data,
       averageRating = average_rating data,
       totalReviews = total_reviews data,
       badReviews = bad_reviews data,
       serviceBadReviews = service_bad_reviews data,
       tasteBadReviews = taste_bad_reviews data,
       shortVideoCount = short_video_count data,
       liveStreamCount = live_stream_count data \<rparr>"

definition survey_fetch :: "world \<Rightarrow> jsstring \<Rightarrow> database \<Rightarrow> response \<times> database" where
  "survey_fetch w identifier db =
     (if identifier = [] then (ErrorResponse 400 ''Identifier is required'', db)
      else
        (case pool_query (fault w 0) (select_by_identifier identifier) db of
           (Inl err, db') \<Rightarrow> (StorageUnavailable, db')
         | (Inr rows, db') \<Rightarrow>
             (case rows of
                [] \<Rightarrow> (NotFound, db')
              | data # _ \<Rightarrow> (DataResponse (row_json data), db'))))"

section \<open>GET /api/surveys and GET /api/export\<close>

text \<open>
  \<open>requireAdmin\<close>, with \<open>ADMIN_KEY\<close> the value of \<open>process.env.ADMIN_KEY || null\<close>: 501 without
  a key on the server, 401 unless \<open>req.get('x-admin-key') || req.query.key\<close> is that very
  string, else the handler \<open>next\<close>.
\<close>

definition requireAdmin ::
  "jsstring option \<Rightarrow> admin_request \<Rightarrow> (response \<times> database) \<Rightarrow> database \<Rightarrow>
     response \<times> database" where
  "requireAdmin ADMIN_KEY req next db =
     (case ADMIN_KEY of
        None \<Rightarrow> (ErrorResponse 501 ''ADMIN_KEY not set on server'', db)
      | Some k \<Rightarrow>
          if k = [] then (ErrorResponse 501 ''ADMIN_KEY not set on server'', db)
          else if or_else (x_admin_key req) (get_prop (query req) ''key'') JString \<noteq> JString k
          then (ErrorResponse 401 ''Unauthorized'', db)
          else next)"

text \<open>\<open>parseInt(x || d, 10)\<close> on a property of \<open>req.query\<close>.\<close>

definition parse_query_int :: "jsval \<Rightarrow> string \<Rightarrow> js_error + jsnum" where
  "parse_query_int x d =
     (case ToString (if truthy x then x else JString (str d)) of
        Inl e \<Rightarrow> Inl e
      | Inr s \<Rightarrow> Inr (parseInt10 s))"

text \<open>
  \<open>const limit = Math.min(parseInt(req.query.limit || '100', 10), 1000)\<close> and
  \<open>const offset = Math.max(parseInt(req.query.offset || '0', 10), 0)\<close>.
\<close>

definition page_limit :: "admin_request \<Rightarrow> js_error + jsnum" where
  "page_limit req =
     and_then (parse_query_int (get_prop (query req) ''limit'') ''100'')
       (\<lambda>n. Inr (Math_min n (Finite 1000)))"

definition page_offset :: "admin_request \<Rightarrow> js_error + jsnum" where
  "page_offset req =
     and_then (parse_query_int (get_prop (query req) ''offset'') ''0'')
       (\<lambda>n. Inr (Math_max n (Finite 0)))"

definition surveys_handler :: "world \<Rightarrow> admin_request \<Rightarrow> database \<Rightarrow> response \<times> database" where
  "surveys_handler w req db =
     (case page_limit req of
        Inl err \<Rightarrow> (StorageUnavailable, db)
      | Inr limit \<Rightarrow>
          (case page_offset req of
             Inl err \<Rightarrow> (StorageUnavailable, db)
           | Inr offset \<Rightarrow>
               (case pool_query (fault w 0) (select_page limit offset) db of
                  (Inl err, db1) \<Rightarrow> (StorageUnavailable, db1)
                | (Inr rows, db1) \<Rightarrow>
                    (case pool_query (fault w 1) select_count (meanwhile w db1) of
                       (Inl err, db2) \<Rightarrow> (StorageUnavailable, db2)
                     | (Inr countRows, db2) \<Rightarrow>
                         (case countRows of
                            [] \<Rightarrow> (StorageUnavailable, db2)
                          | total_n # _ \<Rightarrow>
                              (ListResponse rows limit offset total_n (length rows), db2))))))"

definition list_surveys ::
  "jsstring option \<Rightarrow> world \<Rightarrow> admin_request \<Rightarrow> database \<Rightarrow> response \<times> database" where
  "list_surveys ADMIN_KEY w req db = requireAdmin ADMIN_KEY req (surveys_handler w req db) db"

definition export_handler :: "world \<Rightarrow> database \<Rightarrow> response \<times> database" where
  "export_handler w db =
     (case pool_query (fault w 0) select_all db of
        (Inl err, db') \<Rightarrow> (StorageUnavailable, db')
      | (Inr rows, db') \<Rightarrow> (CsvResponse rows, db'))"

definition export_surveys ::
  "jsstring option \<Rightarrow> world \<Rightarrow> admin_request \<Rightarrow> database \<Rightarrow> response \<times> database" where
  "export_surveys ADMIN_KEY w req db = requireAdmin ADMIN_KEY req (export_handler w db) db"

section \<open>Sequential submissions and the state they keep\<close>

text \<open>Requests to \<open>/api/saveSurvey\<close> served one after the other, each in its own world.\<close>

fun submit_all :: "(world \<times> request) list \<Rightarrow> database \<Rightarrow> response list \<times> database" where
  "submit_all [] db = ([], db)"
| "submit_all (wr # rest) db =
     (let (res, db') = saveSurvey (fst wr) (snd wr) db;
          (ress, db'') = submit_all rest db'
      in (res # ress, db''))"

text \<open>The rows that a database holds for an identifier.\<close>

definition rows_of :: "database \<Rightarrow> jsstring \<Rightarrow> stored_row list" where
  "rows_of db s = filter (\<lambda>r. store_identifier r = s) (surveys db)"

text \<open>
  What the constraints of the table and its sequence keep true: no two rows share a
  \<open>store_identifier\<close> or an \<open>id\<close>, and every \<open>id\<close> was drawn from the sequence.
\<close>

definition wf_db :: "database \<Rightarrow> bool" where
  "wf_db db \<longleftrightarrow>
     distinct (map store_identifier (surveys db)) \<and>
     distinct (map row_id (surveys db)) \<and>
     (\<forall>r \<in> set (surveys db). row_id r \<le> surveys_id_seq db)"

text \<open>
  The row \<open>r\<close> after the \<open>UPDATE\<close> that the handler issues for \<open>data\<close>, with the parameters
  in the order of its array: \<open>c\<close> is \<open>currentCount + 1\<close>.
\<close>

definition revise :: "data_object \<Rightarrow> int \<Rightarrow> int \<Rightarrow> stored_row \<Rightarrow> stored_row" where
  "revise data c NOW r =
     update_row
       (store_name data) (business_type data) (store_area data)
       (business_circle data) (decoration_level data) (monthly_revenue data)
       (daily_customers data) (seats data) (food_cost data) (labor_cost data)
       (rent_cost data) (online_revenue data) (main_platforms data)
       (marketing_situation data) (total_customers data)
       (repeat_customers data) (utility_cost data) (marketing_cost data)
       (average_rating data) (total_reviews data) (bad_reviews data)
       (service_bad_reviews data) (taste_bad_reviews data)
       (short_video_count data) (live_stream_count data)
       (Some c) (user_agent data) (ip data) NOW r"

text \<open>The identifier that a submission names: \<open>toTextOrNull(b.storeIdentifier)\<close>.\<close>

definition identifier_of :: "request \<Rightarrow> js_error + jsstring option" where
  "identifier_of req = toTextOrNull (get_prop (body_of req) ''storeIdentifier'')"

text \<open>
  A world in which the storage engine rejects no statement and no other request touches the
  database: the request is served alone.
\<close>

definition calm :: "world \<Rightarrow> bool" where
  "calm w \<longleftrightarrow> fault w 0 = None \<and> fault w 1 = None \<and> meanwhile w = (\<lambda>db. db)"

text \<open>No field of the submission throws while \<open>data\<close> is built.\<close>

definition fields_ok :: "request \<Rightarrow> bool" where
  "fields_ok req = (case build_data req (body_of req) [] of Inl e \<Rightarrow> False | Inr d \<Rightarrow> True)"

section \<open>The specification's words\<close>

text \<open>
  ``Every metric field of the stored record holds the submission's value'': each of the 25
  metric columns of the row \<open>r\<close> holds what the submitted object \<open>b\<close> has under the property
  of that name, normalised as the type of the column asks (so \<open>null\<close> where \<open>b\<close> has nothing).
\<close>

definition holds_submission :: "jsval \<Rightarrow> (int, rat, 'a) survey_data_scheme \<Rightarrow> bool" where
  "holds_submission b r \<longleftrightarrow>
     toTextOrNull (get_prop b ''storeName'') = Inr (store_name r) \<and>
     toTextOrNull (get_prop b ''businessType'') = Inr (business_type r) \<and>
     toIntOrNull (get_prop b ''storeArea'') = Inr (store_area r) \<and>
     toTextOrNull (get_prop b ''businessCircle'') = Inr (business_circle r) \<and>
     toTextOrNull (get_prop b ''decorationLevel'') = Inr (decoration_level r) \<and>
     toIntOrNull (get_prop b ''monthlyRevenue'') = Inr (monthly_revenue r) \<and>
     toIntOrNull (get_prop b ''dailyCustomers'') = Inr (daily_customers r) \<and>
     toIntOrNull (get_prop b ''seats'') = Inr (seats r) \<and>
     toIntOrNull (get_prop b ''foodCost'') = Inr (food_cost r) \<and>
     toIntOrNull (get_prop b ''laborCost'') = Inr (labor_cost r) \<and>
     toIntOrNull (get_prop b ''rentCost'') = Inr (rent_cost r) \<and>
     toIntOrNull (get_prop b ''onlineRevenue'') = Inr (online_revenue r) \<and>
     toTextOrNull (get_prop b ''mainPlatforms'') = Inr (main_platforms r) \<and>
     toTextOrNull (get_prop b ''marketingSituation'') = Inr (marketing_situation r) \<and>
     toIntOrNull (get_prop b ''totalCustomers'') = Inr (total_customers r) \<and>
     toIntOrNull (get_prop b ''repeatCustomers'') = Inr (repeat_customers r) \<and>
     toIntOrNull (get_prop b ''utilityCost'') = Inr (utility_cost r) \<and>
     toIntOrNull (get_prop b ''marketingCost'') = Inr (marketing_cost r) \<and>
     toFloatOrNull (get_prop b ''averageRating'') = Inr (average_rating r) \<and>
     toIntOrNull (get_prop b ''totalReviews'') = Inr (total_reviews r) \<and>
     toIntOrNull (get_prop b ''badReviews'') = Inr (bad_reviews r) \<and>
     toIntOrNull (get_prop b ''serviceBadReviews'') = Inr (service_bad_reviews r) \<and>
     toIntOrNull (get_prop b ''tasteBadReviews'') = Inr (taste_bad_reviews r) \<and>
     toIntOrNull (get_prop b ''shortVideoCount'') = Inr (short_video_count r) \<and>
     toIntOrNull (get_prop b ''liveStreamCount'') = Inr (live_stream_count r)"



text \<open>
  ``The first submission and up to three further ones succeed, the next is rejected'': the
  answers to a first submission and the further ones that follow it, when the record has
  the \<open>id\<close> \<open>i\<close>.  Each success carries the \<open>id\<close> and the time of its write.
\<close>

definition expected_responses ::
  "int \<Rightarrow> (world \<times> request) \<Rightarrow> (world \<times> request) list \<Rightarrow> response list" where
  "expected_responses i first further =
     SaveResponse i (Some (now (fst first))) #
     map (\<lambda>(k, wr). if k < 3 then SaveResponse i (Some (now (fst wr))) else LimitReached)
       (enumerate 0 further)"

section \<open>Sample requests and databases\<close>

text \<open>A calm world at time \<open>t\<close>.\<close>

definition world_at :: "int \<Rightarrow> world" where
  "world_at t = \<lparr> now = t, fault = (\<lambda>k. None), meanwhile = (\<lambda>db. db) \<rparr>"

text \<open>
  A world at time \<open>t\<close> in which statement \<open>k\<close> of the request is rejected with the error \<open>e\<close>.
\<close>

definition world_failing :: "int \<Rightarrow> nat \<Rightarrow> js_error \<Rightarrow> world" where
  "world_failing t k e =
     \<lparr> now = t, fault = (\<lambda>n. if n = k then Some e else None), meanwhile = (\<lambda>db. db) \<rparr>"

text \<open>SQLSTATE 08006, \<open>connection_failure\<close>.\<close>

definition connection_failure :: js_error where
  "connection_failure = JsError (Some ''08006'')"

text \<open>
  A world at time \<open>t\<close> in which another request, served in the calm world at \<open>t + 1\<close>, runs
  from its start to its end while the handler awaits its check.
\<close>

definition world_racing :: "int \<Rightarrow> request \<Rightarrow> world" where
  "world_racing t other =
     \<lparr> now = t, fault = (\<lambda>k. None),
       meanwhile = (\<lambda>db. snd (saveSurvey (world_at (t + 1)) other db)) \<rparr>"

text \<open>The database after \<open>initDb\<close> on an empty store.\<close>

definition empty_db :: database where
  "empty_db = \<lparr> surveys = [], surveys_id_seq = 0 \<rparr>"

text \<open>\<open>{ storeIdentifier: ident, ...rest }\<close>, sent by a client at 10.0.0.7.\<close>

definition submission :: "jsval \<Rightarrow> (jsstring \<times> jsval) list \<Rightarrow> request" where
  "submission ident rest =
     \<lparr> body = JObject ((str ''storeIdentifier'', ident) # rest),
       user_agent_header = Some (str ''curl/8''),
       req_ip = Some (str ''10.0.0.7'') \<rparr>"

text \<open>\<open>{ storeIdentifier: "S1", monthlyRevenue: m }\<close>, the scenario of the specification.\<close>

definition submit_S1 :: "rat \<Rightarrow> request" where
  "submit_S1 m =
     submission (JString (str ''S1'')) [(str ''monthlyRevenue'', JNumber (Finite m))]"



text \<open>A row of \<open>S1\<close> with the given \<open>id\<close>, \<open>update_count\<close> and \<open>monthly_revenue\<close>.\<close>

definition row_S1 :: "int \<Rightarrow> int option \<Rightarrow> int option \<Rightarrow> stored_row" where
  "row_S1 i c m =
     \<lparr> store_identifier = str ''S1'', store_name = None, business_type = None,
       store_area = None, business_circle = None, decoration_level = None,
       monthly_revenue = m, daily_customers = None, seats = None, food_cost = None,
       labor_cost = None, rent_cost = None, online_revenue = None, main_platforms = None,
       marketing_situation = None, total_customers = None, repeat_customers = None,
       utility_cost = None, marketing_cost = None, average_rating = None,
       total_reviews = None, bad_reviews = None, service_bad_reviews = None,
       taste_bad_reviews = None, short_video_count = None, live_stream_count = None,
       user_agent = Some (str ''curl/8''), ip = Some (str ''10.0.0.7''),
       row_id = i, timestamp = Some 7, update_count = c \<rparr>"

definition db_S1 :: "int option \<Rightarrow> database" where
  "db_S1 c = \<lparr> surveys = [row_S1 1 c (Some 50000)], surveys_id_seq = 1 \<rparr>"

text \<open>
  \<open>{ storeIdentifier: s }\<close> where \<open>s\<close> is an ideographic space (U+3000) and a space.
\<close>

definition submit_blank :: request where
  "submit_blank = submission (JString [0x3000, 0x20]) []"

text \<open>
  The scenario of the specification: \<open>S1\<close> is submitted at time 1, then four more times.
\<close>

definition S1_first :: "world \<times> request" where
  "S1_first = (world_at 1, submit_S1 50000)"

definition S1_further :: "(world \<times> request) list" where
  "S1_further =
     [(world_at 2, submit_S1 52000), (world_at 3, submit_S1 53000),
      (world_at 4, submit_S1 54000), (world_at 5, submit_S1 55000)]"

text \<open>
  \<open>{ storeIdentifier: "S1", seats: "abc", storeArea: 2.5, monthlyRevenue: 1e999 }\<close>: no
  number, a fraction, and a literal that \<open>JSON.parse\<close> reads as \<open>Infinity\<close>.
\<close>

definition submit_malformed :: request where
  "submit_malformed =
     submission (JString (str ''S1''))
       [(str ''seats'', JString (str ''abc'')),
        (str ''storeArea'', JNumber (Finite (5 / 2))),
        (str ''monthlyRevenue'', JNumber PosInfinity)]"

text \<open>
  A database whose one row of \<open>S1\<close> has another \<open>id\<close>, \<open>update_count\<close>, \<open>timestamp\<close>,
  \<open>user_agent\<close> and \<open>ip\<close> than that of \<open>db_S1 (Some 0)\<close>, and the same metric columns.
\<close>

definition db_S1_other :: database where
  "db_S1_other =
     \<lparr> surveys = [(row_S1 2 (Some 3) (Some 50000))
                     \<lparr> timestamp := Some 99, user_agent := None, ip := None \<rparr>],
       surveys_id_seq = 2 \<rparr>"

text \<open>A database with a row of \<open>S1\<close> and a later one of \<open>S2\<close>.\<close>

definition db_two :: database where
  "db_two =
     \<lparr> surveys = [row_S1 1 (Some 0) (Some 50000),
                   (row_S1 2 (Some 0) None) \<lparr> store_identifier := str ''S2'' \<rparr>],
       surveys_id_seq = 2 \<rparr>"

text \<open>\<open>GET /api/surveys?limit=5000&offset=-1\<close> with the header \<open>x-admin-key: secret\<close>.\<close>

definition admin_page :: admin_request where
  "admin_page =
     \<lparr> x_admin_key = Some (str ''secret''),
       query = JObject [(str ''limit'', JString (str ''5000'')),
                        (str ''offset'', JString (str ''-1''))] \<rparr>"

section \<open>Powers of two and the text of an integer\<close>

text \<open>Powers of two by halving the exponent, for evaluation.\<close>

lemma pow2_halve [code]:
  "pow2 e =
     (if e = 0 then 1
      else if 0 < e then (let h = pow2 (e div 2) in if even e then h * h else 2 * h * h)
      else 1 / pow2 (- e))"
proof -
  have pos: "(2::rat) ^ nat e = (let h = 2 ^ nat (e div 2) in if even e then h * h else 2 * h * h)"
    if "0 < e" for e :: int
  proof (cases "even e")
    case True
    then obtain k where k: "e = 2 * k" by (auto elim: evenE)
    with that have "0 < k" by simp
    then have "nat e = nat k + nat k" using k by simp
    then show ?thesis using True k by (simp add: power_add Let_def)
  next
    case False
    then obtain k where k: "e = 2 * k + 1" by (auto elim: oddE)
    with that have "0 \<le> k" by simp
    then have "nat e = Suc (nat k + nat k)" using k by simp
    moreover have "e div 2 = k" using k by simp
    ultimately show ?thesis using False by (simp add: power_add Let_def)
  qed
  show ?thesis
  proof (cases "0 < e")
    case True
    then have "0 \<le> e div 2" by simp
    then show ?thesis using True pos[OF True] by (simp add: pow2_def Let_def)
  next
    case False
    then show ?thesis by (simp add: pow2_def)
  qed
qed

lemma digit_of_dec: "0 \<le> d \<Longrightarrow> d < 10 \<Longrightarrow> digit_of 10 (word_of_int (48 + d)) = Some d"
proof -
  assume "0 \<le> d" "d < 10"
  then have "d = 0 \<or> d = 1 \<or> d = 2 \<or> d = 3 \<or> d = 4 \<or> d = 5 \<or> d = 6 \<or> d = 7 \<or> d = 8 \<or> d = 9"
    by arith
  then show ?thesis
    by (elim disjE) (simp_all add: digit_of_def)
qed

lemma dec_digit_not_minus:
  "0 \<le> d \<Longrightarrow> d < 10 \<Longrightarrow> (word_of_int (48 + d) :: 16 word) \<noteq> 0x2D"
proof -
  assume "0 \<le> d" "d < 10"
  then have "d = 0 \<or> d = 1 \<or> d = 2 \<or> d = 3 \<or> d = 4 \<or> d = 5 \<or> d = 6 \<or> d = 7 \<or> d = 8 \<or> d = 9"
    by arith
  then show ?thesis
    by (elim disjE) simp_all
qed

lemma digits_value_snoc:
  "digits_value 10 (xs @ [c]) =
     digits_value 10 xs * 10 + (case digit_of 10 c of Some v \<Rightarrow> v | None \<Rightarrow> 0)"
  by (simp add: digits_value_def)

text \<open>The digits of a non-negative integer denote it.\<close>

lemma digits_value_dec_digits: "0 \<le> n \<Longrightarrow> digits_value 10 (dec_digits n) = n"
proof (induction n rule: dec_digits.induct)
  case (1 n)
  show ?case
  proof (cases "n < 10")
    case True
    with 1(2) have "digit_of 10 (word_of_int (48 + n)) = Some n"
      by (intro digit_of_dec)
    with True show ?thesis
      by (subst dec_digits.simps) (simp add: digits_value_def del: of_int_add dec_digits.simps)
  next
    case False
    then have "digits_value 10 (dec_digits (n div 10)) = n div 10"
      using 1 by simp
    moreover have "digit_of 10 (word_of_int (48 + n mod 10)) = Some (n mod 10)"
      by (intro digit_of_dec) simp_all
    ultimately show ?thesis
      using False
      by (subst dec_digits.simps) (simp add: digits_value_snoc del: of_int_add dec_digits.simps)
  qed
qed

lemma dec_digits_no_minus: "0 \<le> n \<Longrightarrow> 0x2D \<notin> set (dec_digits n)"
proof (induction n rule: dec_digits.induct)
  case (1 n)
  show ?case
  proof (cases "n < 10")
    case True
    with 1(2) dec_digit_not_minus[of n] show ?thesis
      by (subst dec_digits.simps) (simp del: of_int_add dec_digits.simps)
  next
    case False
    then have "0x2D \<notin> set (dec_digits (n div 10))"
      using 1 by simp
    moreover have "(word_of_int (48 + n mod 10) :: 16 word) \<noteq> 0x2D"
      by (intro dec_digit_not_minus) simp_all
    ultimately show ?thesis
      using False by (subst dec_digits.simps) (simp del: of_int_add dec_digits.simps)
  qed
qed

text \<open>The text of a \<open>BIGINT\<close> identifies it.\<close>

lemma int8_text_inj: "int8_text m = int8_text n \<longleftrightarrow> m = n"
proof
  assume e: "int8_text m = int8_text n"
  have neg: False if "a < 0" "0 \<le> b" "int8_text a = int8_text b" for a b
  proof -
    from that have "dec_digits b = 0x2D # dec_digits (- a)"
      by (simp add: int8_text_def)
    then have "0x2D \<in> set (dec_digits b)"
      by simp
    with dec_digits_no_minus[OF that(2)] show False by simp
  qed
  consider "m < 0" "n < 0" | "m < 0" "0 \<le> n" | "0 \<le> m" "n < 0" | "0 \<le> m" "0 \<le> n"
    by linarith
  then show "m = n"
  proof cases
    case 1
    with e have "dec_digits (- m) = dec_digits (- n)" by (simp add: int8_text_def)
    then have "digits_value 10 (dec_digits (- m)) = digits_value 10 (dec_digits (- n))"
      by (simp only:)
    with 1 show ?thesis by (simp add: digits_value_dec_digits del: dec_digits.simps)
  next
    case 2 with neg[of m n] e show ?thesis by simp
  next
    case 3 with neg[of n m] e show ?thesis by simp
  next
    case 4
    with e have "dec_digits m = dec_digits n" by (simp add: int8_text_def)
    then have "digits_value 10 (dec_digits m) = digits_value 10 (dec_digits n)"
      by (simp only:)
    with 4 show ?thesis by (simp add: digits_value_dec_digits del: dec_digits.simps)
  qed
qed simp

lemma map_option_int8_text_eq:
  "map_option int8_text a = map_option int8_text b \<longleftrightarrow> a = b"
  by (cases a; cases b) (simp_all add: int8_text_inj del: dec_digits.simps)



section \<open>Lemmas about the steps of a submission\<close>


lemma and_then_Inr_iff: "and_then m f = Inr y \<longleftrightarrow> (\<exists>x. m = Inr x \<and> f x = Inr y)"
  by (cases m) (simp_all add: and_then_def)

lemma and_then_Inr: "m = Inr x \<Longrightarrow> and_then m f = f x"
  by (simp add: and_then_def)

lemma build_data_holds:
  assumes "build_data req b s = Inr d"
  shows "holds_submission b d \<and> store_identifier d = s \<and>
         user_agent d = or_else (user_agent_header req) None Some \<and>
         ip d = Some (or_else (req_ip req) (str ''unknown'') id)"
  using assms unfolding build_data_def and_then_Inr_iff holds_submission_def
  by (elim exE conjE) auto

lemma build_data_ident:
  assumes "build_data req b s0 = Inr d0"
  shows "build_data req b s = Inr (d0\<lparr>store_identifier := s\<rparr>)"
  using assms unfolding build_data_def and_then_Inr_iff
  by (elim exE conjE) (auto simp: and_then_Inr)

lemma fields_ok_build:
  assumes "fields_ok req"
  obtains d where "build_data req (body_of req) s = Inr d"
proof -
  from assms obtain d0 where "build_data req (body_of req) [] = Inr d0"
    by (auto simp: fields_ok_def split: sum.splits)
  then have "build_data req (body_of req) s = Inr (d0\<lparr>store_identifier := s\<rparr>)"
    by (rule build_data_ident)
  then show ?thesis by (rule that)
qed

lemma toTextOrNull_None_iff:
  "toTextOrNull v = Inr None \<longleftrightarrow>
     v = JUndefined \<or> v = JNull \<or> (\<exists>s. ToString v = Inr s \<and> trim s = [])"
  by (auto simp: toTextOrNull_def Let_def split: sum.splits)

lemma toTextOrNull_Some_iff:
  "toTextOrNull v = Inr (Some t) \<longleftrightarrow>
     v \<noteq> JUndefined \<and> v \<noteq> JNull \<and> (\<exists>s. ToString v = Inr s \<and> trim s = t \<and> t \<noteq> [])"
  by (auto simp: toTextOrNull_def Let_def split: sum.splits)

lemma check_rows:
  "pool_query None (select_id_update_count s) db =
     (Inr (map (\<lambda>r. (row_id r, update_count r)) (rows_of db s)), db)"
  by (simp add: pool_query_def select_id_update_count_def rows_of_def)

lemma saveSurvey_try_checked:
  assumes "identifier_of req = Inr (Some s)" and "fault w 0 = None"
    and "build_data req (body_of req) s = Inr d"
  shows "saveSurvey_try w req db =
           save_checked w d (map (\<lambda>r. (row_id r, update_count r)) (rows_of db s))
             (meanwhile w db)"
proof -
  from assms(1) have "s \<noteq> []"
    by (auto simp: identifier_of_def toTextOrNull_Some_iff)
  with assms show ?thesis
    by (simp add: saveSurvey_try_def Let_def identifier_of_def check_rows)
qed

lemma rows_of_empty_iff: "rows_of db s = [] \<longleftrightarrow> (\<forall>r \<in> set (surveys db). store_identifier r \<noteq> s)"
  by (auto simp: rows_of_def filter_empty_conv)

lemma pool_query_None: "pool_query None st db = st db"
  by (simp add: pool_query_def)

lemma save_checked_insert:
  assumes "fault w 1 = None" and "wf_db db" and "rows_of db (store_identifier d) = []"
  shows "save_checked w d [] db =
           (Inr (SaveResponse (surveys_id_seq db + 1) (Some (now w))),
            db\<lparr> surveys := surveys db @
                 [survey_data.extend d
                    (survey_row.fields (surveys_id_seq db + 1) (Some (now w)) (Some 0))],
               surveys_id_seq := surveys_id_seq db + 1 \<rparr>)"
proof -
  have a: "\<forall>r \<in> set (surveys db). store_identifier r \<noteq> store_identifier d"
    using assms(3) by (simp add: rows_of_empty_iff)
  have b: "\<forall>r \<in> set (surveys db). row_id r \<noteq> surveys_id_seq db + 1"
    using assms(2) by (fastforce simp: wf_db_def)
  have c: "\<not> (\<exists>r \<in> set (surveys db). row_id r = surveys_id_seq db + 1 \<or>
             store_identifier r = store_identifier d)"
    using a b by blast
  show ?thesis
    using c unfolding save_checked_def list.case assms(1) pool_query_None
    by (cases d)
       (simp add: insert_survey_def Let_def send_saved_def
          survey_data.defs survey_row.defs)
qed

lemma inserted_row_simps:
  "survey_data.truncate (survey_data.extend d (survey_row.fields i t c)) = d"
  "row_id (survey_data.extend d (survey_row.fields i t c)) = i"
  "timestamp (survey_data.extend d (survey_row.fields i t c)) = t"
  "update_count (survey_data.extend d (survey_row.fields i t c)) = c"
  "store_identifier (survey_data.extend d (survey_row.fields i t c)) = store_identifier d"
  "holds_submission b (survey_data.extend d (survey_row.fields i t c)) = holds_submission b d"
  by (cases d; simp add: survey_data.defs survey_row.defs holds_submission_def)+

lemma revise_simps:
  "survey_data.truncate (revise d c t r) = d\<lparr>store_identifier := store_identifier r\<rparr>"
  "row_id (revise d c t r) = row_id r"
  "store_identifier (revise d c t r) = store_identifier r"
  "update_count (revise d c t r) = Some c"
  "timestamp (revise d c t r) = Some t"
  "holds_submission b (revise d c t r) = holds_submission b d"
  by (cases d; cases r; simp add: revise_def update_row_def survey_data.defs holds_submission_def)+

lemma save_checked_update:
  assumes "fault w 1 = None" and "\<not> count_ge c 3" and "rows_of db (store_identifier d) = r0 # rs"
  shows "save_checked w d ((i, c) # rest) db =
           (Inr (SaveResponse (row_id r0) (Some (now w))),
            db\<lparr> surveys := map (\<lambda>r. if store_identifier r = store_identifier d
                                     then revise d (count_plus c 1) (now w) r else r)
                                (surveys db) \<rparr>)"
  using assms(2,3)
  unfolding save_checked_def list.case prod.case assms(1) pool_query_None
  by (simp add: update_survey_def Let_def send_saved_def revise_def rows_of_def)

lemma save_checked_limit:
  assumes "count_ge c 3"
  shows "save_checked w d ((i, c) # rest) db = (Inr LimitReached, db)"
  using assms by (simp add: save_checked_def)

lemma calmD: "calm w \<Longrightarrow> fault w 0 = None" "calm w \<Longrightarrow> fault w 1 = None"
  "calm w \<Longrightarrow> meanwhile w db = db"
  by (simp_all add: calm_def)

lemma rows_of_append: "rows_of (db\<lparr>surveys := surveys db @ xs, surveys_id_seq := n\<rparr>) s
    = rows_of db s @ filter (\<lambda>r. store_identifier r = s) xs"
  by (simp add: rows_of_def)

lemma saveSurvey_first:
  assumes "calm w" and "wf_db db" and "rows_of db s = []"
    and "identifier_of req = Inr (Some s)" and "fields_ok req"
  shows "\<exists>row. saveSurvey w req db =
           (SaveResponse (surveys_id_seq db + 1) (Some (now w)),
            db\<lparr> surveys := surveys db @ [row], surveys_id_seq := surveys_id_seq db + 1 \<rparr>) \<and>
           store_identifier row = s \<and> row_id row = surveys_id_seq db + 1 \<and>
           timestamp row = Some (now w) \<and> update_count row = Some 0 \<and>
           holds_submission (body_of req) row"
proof -
  from assms(5) obtain d where d: "build_data req (body_of req) s = Inr d"
    by (rule fields_ok_build)
  then have hd: "holds_submission (body_of req) d" and sd: "store_identifier d = s"
    using build_data_holds by blast+
  have "saveSurvey_try w req db = save_checked w d [] db"
    using saveSurvey_try_checked[OF assms(4) calmD(1)[OF assms(1)] d, of db] assms(3)
    by (simp add: calmD(3)[OF assms(1)])
  also have "\<dots> = (Inr (SaveResponse (surveys_id_seq db + 1) (Some (now w))),
            db\<lparr> surveys := surveys db @
                 [survey_data.extend d
                    (survey_row.fields (surveys_id_seq db + 1) (Some (now w)) (Some 0))],
               surveys_id_seq := surveys_id_seq db + 1 \<rparr>)"
    using assms(1,2,3) sd by (intro save_checked_insert) (simp_all add: calm_def)
  finally show ?thesis
    using hd sd
    by (intro exI[of _ "survey_data.extend d
          (survey_row.fields (surveys_id_seq db + 1) (Some (now w)) (Some 0))"])
       (simp add: saveSurvey_def inserted_row_simps)
qed

lemma rows_of_map:
  assumes "\<And>r. store_identifier (f r) = store_identifier r"
  shows "rows_of (db\<lparr>surveys := map (\<lambda>r. if store_identifier r = s then f r else r) (surveys db)\<rparr>) s'
       = (if s' = s then map f (rows_of db s) else rows_of db s')"
proof -
  have "filter (\<lambda>r. store_identifier r = s') (map (\<lambda>r. if store_identifier r = s then f r else r) xs)
      = (if s' = s then map f (filter (\<lambda>r. store_identifier r = s) xs)
         else filter (\<lambda>r. store_identifier r = s') xs)" for xs
    by (induction xs) (auto simp: assms)
  then show ?thesis by (simp add: rows_of_def)
qed

lemma saveSurvey_revise:
  assumes "calm w" and "rows_of db s = r0 # rs" and "\<not> count_ge (update_count r0) 3"
    and "identifier_of req = Inr (Some s)" and "fields_ok req"
  shows "\<exists>d. build_data req (body_of req) s = Inr d \<and>
           saveSurvey w req db =
           (SaveResponse (row_id r0) (Some (now w)),
            db\<lparr> surveys := map (\<lambda>r. if store_identifier r = s
                                     then revise d (count_plus (update_count r0) 1) (now w) r
                                     else r) (surveys db) \<rparr>)"
proof -
  from assms(5) obtain d where d: "build_data req (body_of req) s = Inr d"
    by (rule fields_ok_build)
  then have sd: "store_identifier d = s"
    using build_data_holds by blast
  have "saveSurvey_try w req db =
          save_checked w d ((row_id r0, update_count r0) #
             map (\<lambda>r. (row_id r, update_count r)) rs) db"
    using saveSurvey_try_checked[OF assms(4) calmD(1)[OF assms(1)] d, of db] assms(2)
    by (simp add: calmD(3)[OF assms(1)])
  also have "\<dots> = (Inr (SaveResponse (row_id r0) (Some (now w))),
            db\<lparr> surveys := map (\<lambda>r. if store_identifier r = store_identifier d
                                     then revise d (count_plus (update_count r0) 1) (now w) r
                                     else r) (surveys db) \<rparr>)"
    using assms(1,2,3) sd by (intro save_checked_update) (simp_all add: calm_def)
  finally show ?thesis
    using d sd by (simp add: saveSurvey_def)
qed

lemma saveSurvey_limit:
  assumes "fault w 0 = None" and "meanwhile w db = db"
    and "rows_of db s = r0 # rs" and "count_ge (update_count r0) 3"
    and "identifier_of req = Inr (Some s)" and "fields_ok req"
  shows "saveSurvey w req db = (LimitReached, db)"
proof -
  from assms(6) obtain d where d: "build_data req (body_of req) s = Inr d"
    by (rule fields_ok_build)
  show ?thesis
    using saveSurvey_try_checked[OF assms(5) assms(1) d, of db] assms(2,3,4)
    by (simp add: saveSurvey_def save_checked_limit)
qed

lemma save_checked_cases:
  assumes "save_checked w d cr db = (Inr res, db')"
  shows "res = LimitReached \<or> (\<exists>i t. res = SaveResponse i t)"
  using assms
  by (auto simp: save_checked_def send_saved_def
           split: list.splits prod.splits sum.splits if_splits)

lemma saveSurvey_catch_cases:
  "saveSurvey_catch e = Conflict \<or> saveSurvey_catch e = StorageUnavailable"
  by (simp add: saveSurvey_catch_def)

lemma rows_of_unique:
  assumes "wf_db db" and "r \<in> set (surveys db)"
  shows "rows_of db (store_identifier r) = [r]"
proof -
  have "distinct (map store_identifier xs) \<Longrightarrow> r \<in> set xs \<Longrightarrow>
        filter (\<lambda>x. store_identifier x = store_identifier r) xs = [r]" for xs
  proof (induction xs)
    case Nil
    then show ?case by simp
  next
    case (Cons x xs)
    show ?case
    proof (cases "x = r")
      case True
      with Cons.prems have "\<forall>y \<in> set xs. store_identifier y \<noteq> store_identifier r"
        by (force simp: image_iff)
      with True show ?thesis by (simp add: filter_empty_conv)
    next
      case False
      with Cons show ?thesis by auto
    qed
  qed
  with assms show ?thesis by (simp add: rows_of_def wf_db_def)
qed

section \<open>The sample requests, evaluated\<close>



lemma identifier_S1: "identifier_of (submit_S1 m) = Inr (Some (str ''S1''))"
  by (simp add: identifier_of_def body_of_def submit_S1_def submission_def get_prop_def
        toTextOrNull_def trim_def isWhiteSpace_def str_def)

lemma fields_ok_S1: "fields_ok (submit_S1 m)"
  by (simp add: fields_ok_def build_data_def and_then_def body_of_def submit_S1_def
        submission_def get_prop_def toTextOrNull_def toIntOrNull_def toFloatOrNull_def str_def)

lemma calm_world_at: "calm (world_at t)"
  by (simp add: calm_def world_at_def)

lemma rows_of_db_S1: "rows_of (db_S1 c) (str ''S1'') = [row_S1 1 c (Some 50000)]"
  by (simp add: rows_of_def db_S1_def row_S1_def)

lemma prop_blank:
  "get_prop (body_of submit_blank) ''storeIdentifier'' = JString [0x3000, 0x20]"
  by (simp add: submit_blank_def submission_def body_of_def get_prop_def)

lemma trim_blank: "trim [0x3000, 0x20] = []"
  by (simp add: trim_def isWhiteSpace_def)

lemma prop_S1:
  "get_prop (body_of (submit_S1 m)) ''storeIdentifier'' = JString (str ''S1'')"
  by (simp add: submit_S1_def submission_def body_of_def get_prop_def)

lemma trim_S1: "trim (str ''S1'') = str ''S1''"
  by (simp add: trim_def isWhiteSpace_def str_def)

lemma str_S1_nonempty: "str ''S1'' \<noteq> []"
  by (simp add: str_def)

section \<open>The cap on updates\<close>

text \<open>
  C2.  When a submission finds a record of its identifier whose \<open>update_count\<close> is 3 or
  more, the handler answers 403 (\<open>LimitReached\<close>) and the database is the one it found: no
  column of the record, its count and its timestamp included, is written, and the count is
  not clamped.  The submission is one whose fields convert, served while the check is not
  rejected and no other request writes.
\<close>

theorem limit_reached_leaves_record:
  assumes "identifier_of req = Inr (Some s)" and "fields_ok req"
    and "fault w 0 = None" and "meanwhile w db = db"
    and "rows_of db s = r0 # rs" and "update_count r0 = Some c" and "3 \<le> c"
  shows "saveSurvey w req db = (LimitReached, db)"
proof -
  have "count_ge (update_count r0) 3"
    using assms(6,7) by (simp add: count_ge_def)
  with assms(1-5) show ?thesis
    by (intro saveSurvey_limit[where ?r0.0 = r0 and rs = rs and s = s])
qed

theorem limit_reached_leaves_record_witness:
  "identifier_of (submit_S1 56000) = Inr (Some (str ''S1'')) \<and> fields_ok (submit_S1 56000) \<and>
   fault (world_at 20) 0 = None \<and> meanwhile (world_at 20) (db_S1 (Some 3)) = db_S1 (Some 3) \<and>
   rows_of (db_S1 (Some 3)) (str ''S1'') = [row_S1 1 (Some 3) (Some 50000)] \<and>
   update_count (row_S1 1 (Some 3) (Some 50000)) = Some 3 \<and> (3::int) \<le> 3 \<and>
   saveSurvey (world_at 20) (submit_S1 56000) (db_S1 (Some 3)) = (LimitReached, db_S1 (Some 3))"
proof -
  have u: "update_count (row_S1 1 (Some 3) (Some 50000)) = Some 3"
    by (simp add: row_S1_def)
  have f: "fault (world_at 20) 0 = None"
    "meanwhile (world_at 20) (db_S1 (Some 3)) = db_S1 (Some 3)"
    by (simp_all add: world_at_def)
  show ?thesis
    using limit_reached_leaves_record[OF identifier_S1 fields_ok_S1 f rows_of_db_S1 u]
      identifier_S1 fields_ok_S1 f rows_of_db_S1 u
    by simp
qed

section \<open>The identifier of a submission\<close>

text \<open>
  C3.  A submission whose \<open>storeIdentifier\<close> is missing (\<open>undefined\<close> or \<open>null\<close>), or is a
  value whose string is empty once trimmed, is answered 400 (\<open>ValidationError\<close>) and the
  database is the one the handler found, whatever the world; a submission whose
  \<open>storeIdentifier\<close> is present and has a string that is not empty once trimmed is never
  answered \<open>ValidationError\<close>.
\<close>

theorem saveSurvey_identifier_required:
  "((get_prop (body_of req) ''storeIdentifier'' = JUndefined \<or>
     get_prop (body_of req) ''storeIdentifier'' = JNull \<or>
     (\<exists>s. ToString (get_prop (body_of req) ''storeIdentifier'') = Inr s \<and> trim s = []))
      \<longrightarrow> saveSurvey w req db = (ValidationError, db)) \<and>
   ((get_prop (body_of req) ''storeIdentifier'' \<noteq> JUndefined \<and>
     get_prop (body_of req) ''storeIdentifier'' \<noteq> JNull \<and>
     (\<exists>s. ToString (get_prop (body_of req) ''storeIdentifier'') = Inr s \<and> trim s \<noteq> []))
      \<longrightarrow> fst (saveSurvey w req db) \<noteq> ValidationError)"
proof (intro conjI impI)
  let ?v = "get_prop (body_of req) ''storeIdentifier''"
  assume "?v = JUndefined \<or> ?v = JNull \<or> (\<exists>s. ToString ?v = Inr s \<and> trim s = [])"
  then have "toTextOrNull ?v = Inr None"
    by (simp add: toTextOrNull_None_iff)
  then show "saveSurvey w req db = (ValidationError, db)"
    by (simp add: saveSurvey_def saveSurvey_try_def Let_def)
next
  let ?v = "get_prop (body_of req) ''storeIdentifier''"
  assume "?v \<noteq> JUndefined \<and> ?v \<noteq> JNull \<and> (\<exists>s. ToString ?v = Inr s \<and> trim s \<noteq> [])"
  then obtain t where t: "toTextOrNull ?v = Inr (Some t)" "t \<noteq> []"
    by (auto simp: toTextOrNull_Some_iff)
  have catch: "saveSurvey_catch e \<noteq> ValidationError" for e
    by (simp add: saveSurvey_catch_def ValidationError_def Conflict_def StorageUnavailable_def)
  have ok: "res \<noteq> ValidationError"
    if "save_checked w d cr db0 = (Inr res, db')" for d cr db0 res db'
    using save_checked_cases[OF that] by (auto simp: ValidationError_def LimitReached_def)
  show "fst (saveSurvey w req db) \<noteq> ValidationError"
    using t catch ok
    by (auto simp: saveSurvey_def saveSurvey_try_def Let_def split: sum.splits prod.splits)
qed

theorem saveSurvey_identifier_required_witness:
  "saveSurvey (world_at 1) submit_blank empty_db = (ValidationError, empty_db) \<and>
   fst (saveSurvey (world_at 1) (submit_S1 50000) empty_db) \<noteq> ValidationError"
  using saveSurvey_identifier_required[of submit_blank "world_at 1" empty_db]
    saveSurvey_identifier_required[of "submit_S1 50000" "world_at 1" empty_db]
  by (simp add: prop_blank trim_blank prop_S1 trim_S1 str_S1_nonempty)

section \<open>Reading the status of an identifier\<close>

lemma wf_db_S1: "wf_db (db_S1 c)"
  by (simp add: wf_db_def db_S1_def row_S1_def)

lemma rows_of_db_S1_other: "rows_of (db_S1 c) (str ''S2'') = []"
  by (simp add: rows_of_def db_S1_def row_S1_def str_def)

lemma str_S2_nonempty: "str ''S2'' \<noteq> []"
  by (simp add: str_def)

text \<open>
  C5.  \<open>GET /api/survey/status/:identifier\<close> never changes the database.  For an identifier
  (a route parameter, so not the empty string) and a query that the storage engine does not
  reject, it answers \<open>{ exists: false, update_count: 0 }\<close>, not an error, when no row has the
  identifier, and \<open>{ exists: true, update_count }\<close> with the \<open>update_count\<close> of the row that
  has it.
\<close>

theorem survey_status_pure_read:
  "snd (survey_status w identifier db) = db \<and>
   (identifier \<noteq> [] \<and> fault w 0 = None \<longrightarrow>
      (rows_of db identifier = [] \<longrightarrow>
         fst (survey_status w identifier db) = StatusResponse False (Some 0)) \<and>
      (wf_db db \<longrightarrow>
         (\<forall>r \<in> set (surveys db). store_identifier r = identifier \<longrightarrow>
            fst (survey_status w identifier db) = StatusResponse True (update_count r))))"
proof (intro conjI impI)
  show "snd (survey_status w identifier db) = db"
    by (auto simp: survey_status_def pool_query_def select_update_count_def
             split: option.splits list.splits)
next
  assume a: "identifier \<noteq> [] \<and> fault w 0 = None"
  have q: "pool_query None (select_update_count identifier) db =
             (Inr (map update_count (rows_of db identifier)), db)"
    by (simp add: pool_query_def select_update_count_def rows_of_def)
  {
    assume "rows_of db identifier = []"
    then show "fst (survey_status w identifier db) = StatusResponse False (Some 0)"
      using a by (simp add: survey_status_def q)
  next
    assume wf: "wf_db db"
    show "\<forall>r \<in> set (surveys db). store_identifier r = identifier \<longrightarrow>
            fst (survey_status w identifier db) = StatusResponse True (update_count r)"
    proof (intro ballI impI)
      fix r assume "r \<in> set (surveys db)" and "store_identifier r = identifier"
      then have "rows_of db identifier = [r]"
        using rows_of_unique[OF wf] by auto
      then show "fst (survey_status w identifier db) = StatusResponse True (update_count r)"
        using a by (simp add: survey_status_def q)
    qed
  }
qed

theorem survey_status_pure_read_witness:
  "str ''S1'' \<noteq> [] \<and> fault (world_at 10) 0 = None \<and> wf_db (db_S1 (Some 2)) \<and>
   row_S1 1 (Some 2) (Some 50000) \<in> set (surveys (db_S1 (Some 2))) \<and>
   rows_of (db_S1 (Some 2)) (str ''S2'') = [] \<and>
   snd (survey_status (world_at 10) (str ''S1'') (db_S1 (Some 2))) = db_S1 (Some 2) \<and>
   fst (survey_status (world_at 10) (str ''S1'') (db_S1 (Some 2))) =
     StatusResponse True (Some 2) \<and>
   fst (survey_status (world_at 10) (str ''S2'') (db_S1 (Some 2))) =
     StatusResponse False (Some 0)"
proof -
  have f: "fault (world_at 10) 0 = None"
    by (simp add: world_at_def)
  have m: "row_S1 1 (Some 2) (Some 50000) \<in> set (surveys (db_S1 (Some 2)))"
    by (simp add: db_S1_def)
  have i: "store_identifier (row_S1 1 (Some 2) (Some 50000)) = str ''S1''"
    and u: "update_count (row_S1 1 (Some 2) (Some 50000)) = Some 2"
    by (simp_all add: row_S1_def)
  show ?thesis
    using survey_status_pure_read[of "world_at 10" "str ''S1''" "db_S1 (Some 2)"]
      survey_status_pure_read[of "world_at 10" "str ''S2''" "db_S1 (Some 2)"]
      f m i u wf_db_S1[of "Some 2"] rows_of_db_S1_other[of "Some 2"]
      str_S1_nonempty str_S2_nonempty
    by simp
qed

section \<open>Sequential submissions of one identifier\<close>


lemma submit_all_snoc:
  "submit_all (xs @ [x]) db =
     (let (rs, db1) = submit_all xs db; (r, db2) = saveSurvey (fst x) (snd x) db1
      in (rs @ [r], db2))"
  by (induction xs arbitrary: db) (auto simp: Let_def split: prod.splits)

lemma expected_responses_snoc:
  "expected_responses i first (xs @ [x]) =
     expected_responses i first xs @
       [if length xs < 3 then SaveResponse i (Some (now (fst x))) else LimitReached]"
  by (simp add: expected_responses_def enumerate_append_eq)

lemma wf_empty_db: "wf_db empty_db"
  by (simp add: wf_db_def empty_db_def)

lemma rows_of_empty_db: "rows_of empty_db s = []"
  by (simp add: rows_of_def empty_db_def)

lemma S1_scenario_ok:
  "\<forall>wr \<in> set (S1_first # S1_further).
     calm (fst wr) \<and> identifier_of (snd wr) = Inr (Some (str ''S1'')) \<and> fields_ok (snd wr)"
  by (simp add: S1_first_def S1_further_def calm_world_at identifier_S1 fields_ok_S1)

text \<open>
  C1.  Submissions of one identifier \<open>s\<close>, served one after the other, each alone and with
  fields that convert, to a database that has no record of \<open>s\<close>.  The first adds one row
  at the end of the table, with \<open>update_count\<close> 0, and is answered with the \<open>id\<close> of the row and
  the time of the write.  Each of the next three is answered with that \<open>id\<close> and its own
  time, every later one with 403 (\<open>LimitReached\<close>).  After \<open>n\<close> further submissions the
  table is the old one and that single row, whose \<open>update_count\<close> is \<open>n\<close> up to three and 3
  from then on, and whose \<open>timestamp\<close> is the time of the last write that succeeded.
\<close>

theorem first_submission_then_three_updates:
  assumes wf: "wf_db db" and fresh: "rows_of db s = []"
    and all: "\<forall>wr \<in> set (first # further).
               calm (fst wr) \<and> identifier_of (snd wr) = Inr (Some s) \<and> fields_ok (snd wr)"
  shows "\<exists>r. submit_all (first # further) db =
           (expected_responses (surveys_id_seq db + 1) first further,
            db\<lparr> surveys := surveys db @ [r], surveys_id_seq := surveys_id_seq db + 1 \<rparr>) \<and>
           store_identifier r = s \<and> row_id r = surveys_id_seq db + 1 \<and>
           update_count r = Some (min (int (length further)) 3) \<and>
           timestamp r = Some (now (fst ((first # further) ! min (length further) 3)))"
  using all
proof (induction further rule: rev_induct)
  case Nil
  then have f: "calm (fst first)" "identifier_of (snd first) = Inr (Some s)" "fields_ok (snd first)"
    by simp_all
  from saveSurvey_first[OF f(1) wf fresh f(2,3)] show ?case
    by (auto simp: expected_responses_def)
next
  case (snoc x xs)
  then have x: "calm (fst x)" "identifier_of (snd x) = Inr (Some s)" "fields_ok (snd x)"
    by simp_all
  from snoc obtain r where run: "submit_all (first # xs) db =
           (expected_responses (surveys_id_seq db + 1) first xs,
            db\<lparr> surveys := surveys db @ [r], surveys_id_seq := surveys_id_seq db + 1 \<rparr>)"
    and r: "store_identifier r = s" "row_id r = surveys_id_seq db + 1"
      "update_count r = Some (min (int (length xs)) 3)"
      "timestamp r = Some (now (fst ((first # xs) ! min (length xs) 3)))"
    by auto
  let ?db1 = "db\<lparr> surveys := surveys db @ [r], surveys_id_seq := surveys_id_seq db + 1 \<rparr>"
  have rows1: "rows_of ?db1 s = [r]"
    using fresh r(1) by (simp add: rows_of_append)
  have others: "\<forall>r' \<in> set (surveys db). store_identifier r' \<noteq> s"
    using fresh by (simp add: rows_of_empty_iff)
  have step: "submit_all ((first # xs) @ [x]) db =
      (expected_responses (surveys_id_seq db + 1) first xs @ [fst (saveSurvey (fst x) (snd x) ?db1)],
       snd (saveSurvey (fst x) (snd x) ?db1))"
    unfolding submit_all_snoc run by (simp add: Let_def split: prod.splits)
  show ?case
  proof (cases "length xs < 3")
    case True
    then have small: "\<not> count_ge (update_count r) 3"
      by (simp add: r(3) count_ge_def)
    from saveSurvey_revise[OF x(1) rows1 small x(2,3)]
    obtain d where sv: "saveSurvey (fst x) (snd x) ?db1 =
           (SaveResponse (row_id r) (Some (now (fst x))),
            ?db1\<lparr> surveys := map (\<lambda>r'. if store_identifier r' = s
                       then revise d (count_plus (update_count r) 1) (now (fst x)) r'
                       else r') (surveys ?db1) \<rparr>)"
      by auto
    have m: "map (\<lambda>r'. if store_identifier r' = s
                       then revise d (count_plus (update_count r) 1) (now (fst x)) r'
                       else r') (surveys db) = surveys db"
      using others by (intro map_idI) simp
    let ?r' = "revise d (count_plus (update_count r) 1) (now (fst x)) r"
    have "submit_all (first # xs @ [x]) db =
           (expected_responses (surveys_id_seq db + 1) first (xs @ [x]),
            db\<lparr> surveys := surveys db @ [?r'], surveys_id_seq := surveys_id_seq db + 1 \<rparr>)"
      using step True by (simp add: sv m r expected_responses_snoc)
    moreover have "store_identifier ?r' = s" "row_id ?r' = surveys_id_seq db + 1"
      "update_count ?r' = Some (min (int (length (xs @ [x]))) 3)"
      "timestamp ?r' = Some (now (fst ((first # xs @ [x]) ! min (length (xs @ [x])) 3)))"
      using True by (simp_all add: revise_simps r count_plus_def nth_append)
    ultimately show ?thesis by blast
  next
    case False
    then have big: "count_ge (update_count r) 3"
      by (simp add: r(3) count_ge_def)
    have sv: "saveSurvey (fst x) (snd x) ?db1 = (LimitReached, ?db1)"
      using x rows1 big
      by (intro saveSurvey_limit[where ?r0.0 = r and rs = "[]" and s = s])
         (simp_all add: calm_def)
    have "submit_all (first # xs @ [x]) db =
           (expected_responses (surveys_id_seq db + 1) first (xs @ [x]), ?db1)"
      using step False by (simp add: sv expected_responses_snoc)
    moreover have "update_count r = Some (min (int (length (xs @ [x]))) 3)"
      "timestamp r = Some (now (fst ((first # xs @ [x]) ! min (length (xs @ [x])) 3)))"
      using False by (simp_all add: r(3,4) nth_append nth_Cons')
    ultimately show ?thesis using r by blast
  qed
qed

theorem first_submission_then_three_updates_witness:
  "wf_db empty_db \<and> rows_of empty_db (str ''S1'') = [] \<and>
   list_all (\<lambda>wr. calm (fst wr) \<and> identifier_of (snd wr) = Inr (Some (str ''S1'')) \<and>
                   fields_ok (snd wr)) (S1_first # S1_further) \<and>
   (\<exists>r. submit_all (S1_first # S1_further) empty_db =
          ([SaveResponse 1 (Some 1), SaveResponse 1 (Some 2), SaveResponse 1 (Some 3),
            SaveResponse 1 (Some 4), LimitReached],
           \<lparr> surveys = [r], surveys_id_seq = 1 \<rparr>) \<and>
        store_identifier r = str ''S1'' \<and> row_id r = 1 \<and> update_count r = Some 3 \<and>
        timestamp r = Some 4)"
proof -
  have e: "expected_responses 1 S1_first S1_further =
     [SaveResponse 1 (Some 1), SaveResponse 1 (Some 2), SaveResponse 1 (Some 3),
      SaveResponse 1 (Some 4), LimitReached]"
    by (simp add: expected_responses_def S1_first_def S1_further_def world_at_def)
  have l: "min (int (length S1_further)) 3 = 3" "surveys_id_seq empty_db + 1 = 1"
    "now (fst ((S1_first # S1_further) ! min (length S1_further) 3)) = 4"
    "empty_db\<lparr> surveys := surveys empty_db @ [r], surveys_id_seq := 1 \<rparr>
       = \<lparr> surveys = [r], surveys_id_seq = 1 \<rparr>" for r
    by (simp_all add: S1_further_def empty_db_def world_at_def)
  show ?thesis
    using first_submission_then_three_updates[OF wf_empty_db rows_of_empty_db S1_scenario_ok]
      wf_empty_db rows_of_empty_db[of "str ''S1''"] S1_scenario_ok
    unfolding l e by (simp del: submit_all.simps add: list_all_iff)
qed

section \<open>What a successful submission leaves in the table\<close>

lemma saveSurvey_saved:
  assumes "saveSurvey w req db = (SaveResponse i t, db')"
    and "identifier_of req = Inr (Some s)" and "fault w 0 = None"
  shows "\<exists>d. build_data req (body_of req) s = Inr d \<and>
           save_checked w d (map (\<lambda>r. (row_id r, update_count r)) (rows_of db s))
             (meanwhile w db) = (Inr (SaveResponse i t), db')"
proof (cases "build_data req (body_of req) s")
  case (Inl e)
  from assms(2) have "s \<noteq> []"
    by (auto simp: identifier_of_def toTextOrNull_Some_iff)
  with assms Inl show ?thesis
    using saveSurvey_catch_cases[of e]
    by (auto simp: saveSurvey_def saveSurvey_try_def Let_def identifier_of_def check_rows
          Conflict_def StorageUnavailable_def)
next
  case (Inr d)
  have c: "saveSurvey_catch e \<noteq> SaveResponse i t" for e
    using saveSurvey_catch_cases[of e] by (auto simp: Conflict_def StorageUnavailable_def)
  show ?thesis
    using assms(1) saveSurvey_try_checked[OF assms(2,3) Inr, of db] Inr c
    by (auto simp: saveSurvey_def split: prod.splits sum.splits)
qed

lemma save_checked_inserted:
  assumes "save_checked w d [] db = (Inr res, db')" and "fault w 1 = None"
  shows "res = SaveResponse (surveys_id_seq db + 1) (Some (now w)) \<and>
         db' = db\<lparr> surveys := surveys db @
                 [survey_data.extend d
                    (survey_row.fields (surveys_id_seq db + 1) (Some (now w)) (Some 0))],
               surveys_id_seq := surveys_id_seq db + 1 \<rparr>"
  using assms(1) unfolding save_checked_def list.case assms(2) pool_query_None
  by (cases d)
     (auto simp: insert_survey_def Let_def send_saved_def survey_data.defs survey_row.defs
           split: if_splits)

lemma save_checked_updated:
  assumes "save_checked w d ((i0, c) # rest) db = (Inr (SaveResponse i t), db')"
    and "fault w 1 = None"
  shows "\<not> count_ge c 3 \<and>
         db' = db\<lparr> surveys := map (\<lambda>r. if store_identifier r = store_identifier d
                                     then revise d (count_plus c 1) (now w) r else r)
                                (surveys db) \<rparr>"
  using assms(1) unfolding save_checked_def list.case prod.case assms(2) pool_query_None
  by (auto simp: update_survey_def Let_def send_saved_def revise_def LimitReached_def
           split: if_splits list.splits)


lemma fetch_rows:
  assumes "s \<noteq> []" and "fault w 0 = None"
  shows "survey_fetch w s db =
           (case rows_of db s of [] \<Rightarrow> (NotFound, db)
            | r # _ \<Rightarrow> (DataResponse (row_json (read_row r)), db))"
  using assms
  by (simp add: survey_fetch_def pool_query_def select_by_identifier_def rows_of_def
        split: list.splits)

lemma saved_rows:
  assumes "calm w" and "identifier_of req = Inr (Some s)"
    and "saveSurvey w req db = (SaveResponse i t, db')"
  shows "\<exists>d. build_data req (body_of req) s = Inr d \<and>
          (case rows_of db s of
             [] \<Rightarrow> i = surveys_id_seq db + 1 \<and>
                   db' = db\<lparr> surveys := surveys db @
                           [survey_data.extend d
                              (survey_row.fields (surveys_id_seq db + 1) (Some (now w)) (Some 0))],
                         surveys_id_seq := surveys_id_seq db + 1 \<rparr>
           | r0 # rs \<Rightarrow> \<not> count_ge (update_count r0) 3 \<and>
                   db' = db\<lparr> surveys := map (\<lambda>r. if store_identifier r = s
                              then revise d (count_plus (update_count r0) 1) (now w) r else r)
                            (surveys db) \<rparr>)"
proof -
  have f: "fault w 0 = None" "fault w 1 = None" "meanwhile w db = db"
    using assms(1) by (simp_all add: calm_def)
  from saveSurvey_saved[OF assms(3,2) f(1)] obtain d
    where d: "build_data req (body_of req) s = Inr d"
      and sc: "save_checked w d (map (\<lambda>r. (row_id r, update_count r)) (rows_of db s)) db
                 = (Inr (SaveResponse i t), db')"
    by (auto simp: f(3))
  have sd: "store_identifier d = s"
    using build_data_holds[OF d] by simp
  show ?thesis
  proof (cases "rows_of db s")
    case Nil
    with sc save_checked_inserted[of w d db "SaveResponse i t" db'] f(2) d
    show ?thesis by auto
  next
    case (Cons r0 rs)
    with sc save_checked_updated[of w d "row_id r0" "update_count r0" _ db i t db'] f(2) d sd
    show ?thesis by auto
  qed
qed

lemma saved_rows_hold:
  assumes "calm w" and "identifier_of req = Inr (Some s)"
    and "saveSurvey w req db = (SaveResponse i t, db')"
  shows "rows_of db' s \<noteq> [] \<and>
         (\<forall>r \<in> set (rows_of db' s). holds_submission (body_of req) r \<and> timestamp r = Some (now w))"
proof -
  from saved_rows[OF assms] obtain d where d: "build_data req (body_of req) s = Inr d"
    and c: "(case rows_of db s of
             [] \<Rightarrow> i = surveys_id_seq db + 1 \<and>
                   db' = db\<lparr> surveys := surveys db @
                           [survey_data.extend d
                              (survey_row.fields (surveys_id_seq db + 1) (Some (now w)) (Some 0))],
                         surveys_id_seq := surveys_id_seq db + 1 \<rparr>
           | r0 # rs \<Rightarrow> \<not> count_ge (update_count r0) 3 \<and>
                   db' = db\<lparr> surveys := map (\<lambda>r. if store_identifier r = s
                              then revise d (count_plus (update_count r0) 1) (now w) r else r)
                            (surveys db) \<rparr>)"
    by blast
  have hd: "holds_submission (body_of req) d" and sd: "store_identifier d = s"
    using build_data_holds[OF d] by simp_all
  show ?thesis
  proof (cases "rows_of db s")
    case Nil
    with c hd sd show ?thesis
      by (simp add: rows_of_append inserted_row_simps)
  next
    case (Cons r0 rs)
    with c hd show ?thesis
      by (simp add: rows_of_map revise_simps)
  qed
qed











lemma texts_S1_rated:
  "int8_text 50000 = str ''50000''" "int8_text 0 = str ''0''"
  by (simp_all add: int8_text_def str_def)


section \<open>Submitting, then fetching\<close>




section \<open>An update replaces every field\<close>



section \<open>Metric values that are no numbers\<close>

lemma saveSurvey_never_validation_error:
  assumes "identifier_of req = Inr (Some s)"
  shows "fst (saveSurvey w req db) \<noteq> ValidationError"
proof -
  from assms have t: "toTextOrNull (get_prop (body_of req) ''storeIdentifier'') = Inr (Some s)"
    "s \<noteq> []"
    by (auto simp: identifier_of_def toTextOrNull_Some_iff)
  have catch: "saveSurvey_catch e \<noteq> ValidationError" for e
    by (simp add: saveSurvey_catch_def ValidationError_def Conflict_def StorageUnavailable_def)
  have ok: "res \<noteq> ValidationError"
    if "save_checked w d cr db0 = (Inr res, db')" for d cr db0 res db'
    using save_checked_cases[OF that] by (auto simp: ValidationError_def LimitReached_def)
  show ?thesis
    using t catch ok
    by (auto simp: saveSurvey_def saveSurvey_try_def Let_def split: sum.splits prod.splits)
qed

lemma Math_round_nearest: "\<bar>of_int (Math_round q) - q\<bar> \<le> 1 / 2"
proof -
  have "of_int \<lfloor>q + 1 / 2\<rfloor> \<le> q + 1 / 2" "q + 1 / 2 < of_int \<lfloor>q + 1 / 2\<rfloor> + 1"
    by linarith+
  then show ?thesis
    unfolding Math_round_def by linarith
qed

lemma Number_abc: "StringToNumber [97, 98, 99] = NaN"
  by code_simp

lemma malformed_values:
  "toIntOrNull (get_prop (body_of submit_malformed) ''seats'') = Inr None"
  "toIntOrNull (get_prop (body_of submit_malformed) ''storeArea'') = Inr (Some 3)"
  "toIntOrNull (get_prop (body_of submit_malformed) ''monthlyRevenue'') = Inr None"
proof -
  have p: "get_prop (body_of submit_malformed) ''seats'' = JString [97, 98, 99]"
    "get_prop (body_of submit_malformed) ''storeArea'' = JNumber (Finite (5 / 2))"
    "get_prop (body_of submit_malformed) ''monthlyRevenue'' = JNumber PosInfinity"
    by (simp_all add: submit_malformed_def submission_def body_of_def get_prop_def str_def)
  show "toIntOrNull (get_prop (body_of submit_malformed) ''seats'') = Inr None"
    "toIntOrNull (get_prop (body_of submit_malformed) ''storeArea'') = Inr (Some 3)"
    "toIntOrNull (get_prop (body_of submit_malformed) ''monthlyRevenue'') = Inr None"
    unfolding p by (simp_all add: toIntOrNull_def Number_abc Math_round_def)
qed

lemma identifier_malformed: "identifier_of submit_malformed = Inr (Some (str ''S1''))"
  by (simp add: identifier_of_def submit_malformed_def submission_def body_of_def get_prop_def
        toTextOrNull_def trim_S1 str_S1_nonempty)

lemma fields_ok_malformed: "fields_ok submit_malformed"
  by (simp add: fields_ok_def build_data_def and_then_def body_of_def submit_malformed_def
        submission_def get_prop_def toTextOrNull_def toIntOrNull_def toFloatOrNull_def str_def
        Let_def split: jsnum.splits)

text \<open>
  C10.  No value of a metric field makes the handler answer 400: a submission with an
  identifier is never answered \<open>ValidationError\<close>.  A value whose \<open>Number\<close> is not finite
  (\<open>NaN\<close> or an infinity) normalises to \<open>null\<close>, for an integer field and for the rating; a
  value with a finite \<open>Number\<close> \<open>q\<close> normalises, for an integer field, to \<open>Math.round(q)\<close>, an
  integer within one half of \<open>q\<close>.  After a submission that succeeded, served alone, the rows
  of its identifier hold these normalised values.
\<close>

theorem malformed_metric_is_nulled_or_rounded:
  "(identifier_of req = Inr (Some s) \<longrightarrow> fst (saveSurvey w req db) \<noteq> ValidationError) \<and>
   (\<forall>v n. ToNumber v = Inr n \<and> \<not> isFinite n \<longrightarrow>
       toIntOrNull v = Inr None \<and> toFloatOrNull v = Inr None) \<and>
   (\<forall>v q. v \<noteq> JUndefined \<and> v \<noteq> JNull \<and> v \<noteq> JString [] \<and> ToNumber v = Inr (Finite q) \<longrightarrow>
       toIntOrNull v = Inr (Some (Math_round q)) \<and> \<bar>of_int (Math_round q) - q\<bar> \<le> 1 / 2) \<and>
   (calm w \<and> identifier_of req = Inr (Some s) \<and> saveSurvey w req db = (SaveResponse i t, db')
      \<longrightarrow> rows_of db' s \<noteq> [] \<and>
          (\<forall>r \<in> set (rows_of db' s). holds_submission (body_of req) r))"
proof (intro conjI allI impI)
  assume "identifier_of req = Inr (Some s)"
  then show "fst (saveSurvey w req db) \<noteq> ValidationError"
    by (rule saveSurvey_never_validation_error)
next
  fix v n assume a: "ToNumber v = Inr n \<and> \<not> isFinite n"
  then show "toIntOrNull v = Inr None" "toFloatOrNull v = Inr None"
    by (cases n; simp add: toIntOrNull_def toFloatOrNull_def)+
next
  fix v q
  assume "v \<noteq> JUndefined \<and> v \<noteq> JNull \<and> v \<noteq> JString [] \<and> ToNumber v = Inr (Finite q)"
  then show "toIntOrNull v = Inr (Some (Math_round q))"
    by (simp add: toIntOrNull_def)
next
  fix v q show "\<bar>of_int (Math_round q) - q\<bar> \<le> 1 / 2"
    by (rule Math_round_nearest)
next
  assume a: "calm w \<and> identifier_of req = Inr (Some s) \<and>
             saveSurvey w req db = (SaveResponse i t, db')"
  then have "rows_of db' s \<noteq> [] \<and>
         (\<forall>r \<in> set (rows_of db' s). holds_submission (body_of req) r \<and> timestamp r = Some (now w))"
    using saved_rows_hold[of w req s db i t db'] by simp
  then show "rows_of db' s \<noteq> []"
    and "\<forall>r \<in> set (rows_of db' s). holds_submission (body_of req) r"
    by simp_all
qed

theorem malformed_metric_is_nulled_or_rounded_witness:
  "\<exists>db'. identifier_of submit_malformed = Inr (Some (str ''S1'')) \<and> calm (world_at 1) \<and>
     saveSurvey (world_at 1) submit_malformed empty_db = (SaveResponse 1 (Some 1), db') \<and>
     ToNumber (JString [97, 98, 99]) = Inr NaN \<and> \<not> isFinite NaN \<and>
     toIntOrNull (JString [97, 98, 99]) = Inr None \<and>
     ToNumber (JNumber (Finite (5 / 2))) = Inr (Finite (5 / 2)) \<and>
     toIntOrNull (JNumber (Finite (5 / 2))) = Inr (Some 3) \<and>
     rows_of db' (str ''S1'') \<noteq> [] \<and>
     (\<forall>r \<in> set (rows_of db' (str ''S1'')).
        seats r = None \<and> store_area r = Some 3 \<and> monthly_revenue r = None)"
proof -
  from saveSurvey_first[OF calm_world_at wf_empty_db rows_of_empty_db identifier_malformed
      fields_ok_malformed, of 1]
  obtain db' where sv:
    "saveSurvey (world_at 1) submit_malformed empty_db = (SaveResponse 1 (Some 1), db')"
    by (auto simp: empty_db_def world_at_def)
  have n: "ToNumber (JString [97, 98, 99]) = Inr NaN" "\<not> isFinite NaN"
    "ToNumber (JNumber (Finite (5 / 2))) = Inr (Finite (5 / 2))"
    "Math_round (5 / 2) = 3"
    by (simp_all add: Number_abc Math_round_def)
  note t = malformed_metric_is_nulled_or_rounded[of submit_malformed "str ''S1''" "world_at 1"
      empty_db 1 "Some 1" db']
  have a: "toIntOrNull (JString [97, 98, 99]) = Inr None"
    using t[THEN conjunct2, THEN conjunct1, rule_format, of "JString [97, 98, 99]" NaN] n
    by simp
  have b: "toIntOrNull (JNumber (Finite (5 / 2))) = Inr (Some 3)"
    using t[THEN conjunct2, THEN conjunct2, THEN conjunct1, rule_format,
        of "JNumber (Finite (5 / 2))" "5 / 2"] n
    by simp
  have r: "rows_of db' (str ''S1'') \<noteq> []"
    "\<forall>r \<in> set (rows_of db' (str ''S1'')). holds_submission (body_of submit_malformed) r"
    using t[THEN conjunct2, THEN conjunct2, THEN conjunct2] sv identifier_malformed
      calm_world_at
    by simp_all
  from r(2) have "\<forall>r \<in> set (rows_of db' (str ''S1'')).
        seats r = None \<and> store_area r = Some 3 \<and> monthly_revenue r = None"
    by (simp add: holds_submission_def malformed_values)
  with r(1) sv n(1,2,3) a b identifier_malformed calm_world_at show ?thesis
    by (intro exI[of _ db']) simp
qed

section \<open>Failures of the storage engine\<close>

lemma saveSurvey_try_check_fault:
  assumes "identifier_of req = Inr (Some s)" and "fault w 0 = Some e"
  shows "saveSurvey_try w req db = (Inl e, db)"
proof -
  from assms(1) have "s \<noteq> []"
    by (auto simp: identifier_of_def toTextOrNull_Some_iff)
  with assms show ?thesis
    by (simp add: saveSurvey_try_def Let_def identifier_of_def pool_query_def)
qed

lemma save_checked_insert_fault:
  assumes "fault w 1 = Some e"
  shows "save_checked w d [] db = (Inl e, db)"
  unfolding save_checked_def list.case using assms by (simp add: pool_query_def)

lemma save_checked_update_fault:
  assumes "fault w 1 = Some e" and "\<not> count_ge c 3"
  shows "save_checked w d ((i, c) # rest) db = (Inl e, db)"
  unfolding save_checked_def list.case prod.case using assms by (simp add: pool_query_def)

lemma save_checked_insert_taken:
  assumes "fault w 1 = None" and "rows_of db (store_identifier d) \<noteq> []"
  shows "save_checked w d [] db =
           (Inl unique_violation, db\<lparr> surveys_id_seq := surveys_id_seq db + 1 \<rparr>)"
proof -
  from assms(2) have "\<exists>r \<in> set (surveys db). store_identifier r = store_identifier d"
    by (auto simp: rows_of_empty_iff)
  then have c: "\<exists>r \<in> set (surveys db). row_id r = surveys_id_seq db + 1 \<or>
             store_identifier r = store_identifier d"
    by blast
  show ?thesis
    using c unfolding save_checked_def list.case assms(1) pool_query_None
    by (cases d) (simp add: insert_survey_def Let_def)
qed

lemma world_racing_simps:
  "fault (world_racing t other) 0 = None"
  "fault (world_racing t other) 1 = None"
  "meanwhile (world_racing t other) db = snd (saveSurvey (world_at (t + 1)) other db)"
  by (simp_all add: world_racing_def)

lemma raced_empty_db:
  "\<exists>row. meanwhile (world_racing 1 (submit_S1 52000)) empty_db =
          empty_db\<lparr> surveys := [row], surveys_id_seq := 1 \<rparr> \<and> store_identifier row = str ''S1''"
  using saveSurvey_first[OF calm_world_at wf_empty_db rows_of_empty_db identifier_S1 fields_ok_S1,
      of 2 52000]
  by (auto simp: world_racing_simps empty_db_def)

text \<open>
  C4.  A submission with an identifier and fields that convert.  When the storage engine
  rejects its check, its \<open>INSERT\<close> or its \<open>UPDATE\<close>, the handler answers 409 (\<open>Conflict\<close>) if
  the error carries the code 23505 of a uniqueness violation, and 500
  (\<open>StorageUnavailable\<close>) for every other error: no failure is answered as a success, and
  the rejected statement leaves the table as it was.  When another request stores the
  identifier between the check, which found none, and the \<open>INSERT\<close>, the \<open>UNIQUE\<close> constraint
  makes the \<open>INSERT\<close> fail with that code and the handler answers 409, the table being as
  the other request left it.
\<close>

theorem storage_failures_surface:
  assumes "identifier_of req = Inr (Some s)" and "fields_ok req"
  shows "(fault w 0 = Some e \<longrightarrow>
            saveSurvey w req db =
              (if code e = Some ''23505'' then Conflict else StorageUnavailable, db)) \<and>
         (fault w 0 = None \<and> fault w 1 = Some e \<and> rows_of db s = [] \<longrightarrow>
            saveSurvey w req db =
              (if code e = Some ''23505'' then Conflict else StorageUnavailable,
               meanwhile w db)) \<and>
         (fault w 0 = None \<and> fault w 1 = Some e \<and>
          (\<exists>r rs. rows_of db s = r # rs \<and> \<not> count_ge (update_count r) 3) \<longrightarrow>
            saveSurvey w req db =
              (if code e = Some ''23505'' then Conflict else StorageUnavailable,
               meanwhile w db)) \<and>
         (fault w 0 = None \<and> fault w 1 = None \<and> rows_of db s = [] \<and>
          rows_of (meanwhile w db) s \<noteq> [] \<longrightarrow>
            fst (saveSurvey w req db) = Conflict \<and>
            surveys (snd (saveSurvey w req db)) = surveys (meanwhile w db))"
proof -
  from assms(2) obtain d where d: "build_data req (body_of req) s = Inr d"
    by (rule fields_ok_build)
  then have sd: "store_identifier d = s"
    using build_data_holds by blast
  note chk = saveSurvey_try_checked[OF assms(1) _ d, of w db]
  show ?thesis
  proof (intro conjI impI)
    assume "fault w 0 = Some e"
    from saveSurvey_try_check_fault[OF assms(1) this, of db]
    show "saveSurvey w req db =
            (if code e = Some ''23505'' then Conflict else StorageUnavailable, db)"
      by (simp add: saveSurvey_def saveSurvey_catch_def)
  next
    assume a: "fault w 0 = None \<and> fault w 1 = Some e \<and> rows_of db s = []"
    then have "saveSurvey_try w req db = (Inl e, meanwhile w db)"
      using chk by (simp add: save_checked_insert_fault)
    then show "saveSurvey w req db =
            (if code e = Some ''23505'' then Conflict else StorageUnavailable, meanwhile w db)"
      by (simp add: saveSurvey_def saveSurvey_catch_def)
  next
    assume a: "fault w 0 = None \<and> fault w 1 = Some e \<and>
               (\<exists>r rs. rows_of db s = r # rs \<and> \<not> count_ge (update_count r) 3)"
    then have "saveSurvey_try w req db = (Inl e, meanwhile w db)"
      using chk by (auto simp: save_checked_update_fault)
    then show "saveSurvey w req db =
            (if code e = Some ''23505'' then Conflict else StorageUnavailable, meanwhile w db)"
      by (simp add: saveSurvey_def saveSurvey_catch_def)
  next
    assume a: "fault w 0 = None \<and> fault w 1 = None \<and> rows_of db s = [] \<and>
               rows_of (meanwhile w db) s \<noteq> []"
    then have t: "saveSurvey_try w req db =
        (Inl unique_violation,
         (meanwhile w db)\<lparr> surveys_id_seq := surveys_id_seq (meanwhile w db) + 1 \<rparr>)"
      using chk sd by (simp add: save_checked_insert_taken)
    then show "fst (saveSurvey w req db) = Conflict"
      by (simp add: saveSurvey_def saveSurvey_catch_def unique_violation_def)
    from t show "surveys (snd (saveSurvey w req db)) = surveys (meanwhile w db)"
      by (simp add: saveSurvey_def)
  qed
qed

theorem storage_failures_surface_witness:
  "identifier_of (submit_S1 50000) = Inr (Some (str ''S1'')) \<and> fields_ok (submit_S1 50000) \<and>
   saveSurvey (world_failing 9 0 connection_failure) (submit_S1 50000) empty_db =
     (StorageUnavailable, empty_db) \<and>
   saveSurvey (world_failing 9 1 unique_violation) (submit_S1 50000) empty_db =
     (Conflict, empty_db) \<and>
   saveSurvey (world_failing 9 1 connection_failure) (submit_S1 50000) empty_db =
     (StorageUnavailable, empty_db) \<and>
   saveSurvey (world_failing 9 1 connection_failure) (submit_S1 50000) (db_S1 (Some 0)) =
     (StorageUnavailable, db_S1 (Some 0)) \<and>
   fst (saveSurvey (world_racing 1 (submit_S1 52000)) (submit_S1 50000) empty_db) = Conflict \<and>
   length (surveys (snd (saveSurvey (world_racing 1 (submit_S1 52000)) (submit_S1 50000)
      empty_db))) = 1"
proof -
  note t = storage_failures_surface[OF identifier_S1[of 50000] fields_ok_S1[of 50000]]
  have c: "code connection_failure \<noteq> Some ''23505''" "code unique_violation = Some ''23505''"
    by (simp_all add: connection_failure_def unique_violation_def)
  have small: "\<not> count_ge (update_count (row_S1 1 (Some 0) (Some 50000))) 3"
    by (simp add: row_S1_def count_ge_def)
  from raced_empty_db obtain row where
    m: "meanwhile (world_racing 1 (submit_S1 52000)) empty_db =
          empty_db\<lparr> surveys := [row], surveys_id_seq := 1 \<rparr>"
    and row: "store_identifier row = str ''S1''"
    by blast
  have raced: "rows_of (meanwhile (world_racing 1 (submit_S1 52000)) empty_db) (str ''S1'') \<noteq> []"
    by (simp add: m rows_of_def row)
  have 1: "saveSurvey (world_failing 9 0 connection_failure) (submit_S1 50000) empty_db =
     (StorageUnavailable, empty_db)"
    using t[where w = "world_failing 9 0 connection_failure" and e = connection_failure and db = empty_db,
        THEN conjunct1] c
    by (simp add: world_failing_def)
  have 2: "saveSurvey (world_failing 9 1 unique_violation) (submit_S1 50000) empty_db =
     (Conflict, empty_db)"
    using t[where w = "world_failing 9 1 unique_violation" and e = unique_violation and db = empty_db,
        THEN conjunct2, THEN conjunct1] c
    by (simp add: world_failing_def rows_of_empty_db)
  have 3: "saveSurvey (world_failing 9 1 connection_failure) (submit_S1 50000) empty_db =
     (StorageUnavailable, empty_db)"
    using t[where w = "world_failing 9 1 connection_failure" and e = connection_failure and db = empty_db,
        THEN conjunct2, THEN conjunct1] c
    by (simp add: world_failing_def rows_of_empty_db)
  have 4: "saveSurvey (world_failing 9 1 connection_failure) (submit_S1 50000) (db_S1 (Some 0)) =
     (StorageUnavailable, db_S1 (Some 0))"
    using t[where w = "world_failing 9 1 connection_failure" and e = connection_failure and db = "db_S1 (Some 0)",
        THEN conjunct2, THEN conjunct2, THEN conjunct1] c small
    by (simp add: world_failing_def rows_of_db_S1)
  have 5: "fst (saveSurvey (world_racing 1 (submit_S1 52000)) (submit_S1 50000) empty_db) = Conflict"
    "surveys (snd (saveSurvey (world_racing 1 (submit_S1 52000)) (submit_S1 50000) empty_db))
       = surveys (meanwhile (world_racing 1 (submit_S1 52000)) empty_db)"
    using t[where w = "world_racing 1 (submit_S1 52000)" and e = undefined and db = empty_db,
        THEN conjunct2, THEN conjunct2, THEN conjunct2] raced
    by (simp_all add: world_racing_def rows_of_empty_db)
  show ?thesis
    using 1 2 3 4 5 identifier_S1 fields_ok_S1 by (simp add: m)
qed

section \<open>Fetching a record\<close>

lemma row_json_eq_iff:
  "row_json (read_row r) = row_json (read_row r') \<longleftrightarrow>
     r\<lparr> row_id := 0, timestamp := None, update_count := None, user_agent := None, ip := None,
        average_rating := None \<rparr>
       = r'\<lparr> row_id := 0, timestamp := None, update_count := None, user_agent := None,
             ip := None, average_rating := None \<rparr> \<and>
     map_option real_column (average_rating r) = map_option real_column (average_rating r')"
  by (cases r; cases r')
     (auto simp: row_json_def read_row_def map_option_int8_text_eq simp del: dec_digits.simps)

text \<open>
  C9, as the claim states it, fails: the answer of \<open>GET /api/survey/data/:identifier\<close> is the
  same for two records of \<open>S1\<close> that differ in \<open>id\<close>, \<open>update_count\<close>, \<open>timestamp\<close>,
  \<open>user_agent\<close> and \<open>ip\<close>, so it carries none of them.
\<close>

theorem fetch_omits_id_count_time_counterexample:
  "fst (survey_fetch (world_at 10) (str ''S1'') (db_S1 (Some 0))) =
     fst (survey_fetch (world_at 10) (str ''S1'') db_S1_other) \<and>
   map row_id (surveys (db_S1 (Some 0))) \<noteq> map row_id (surveys db_S1_other) \<and>
   map update_count (surveys (db_S1 (Some 0))) \<noteq> map update_count (surveys db_S1_other) \<and>
   map timestamp (surveys (db_S1 (Some 0))) \<noteq> map timestamp (surveys db_S1_other) \<and>
   map user_agent (surveys (db_S1 (Some 0))) \<noteq> map user_agent (surveys db_S1_other) \<and>
   map ip (surveys (db_S1 (Some 0))) \<noteq> map ip (surveys db_S1_other)"
  by (simp add: survey_fetch_def pool_query_def select_by_identifier_def world_at_def
        db_S1_def db_S1_other_def row_S1_def row_json_def read_row_def str_def
      del: dec_digits.simps)

text \<open>
  C9, amended.  For an identifier (a route parameter, so not the empty string) and a query
  that the storage engine does not reject, \<open>GET /api/survey/data/:identifier\<close> answers 404
  (\<open>NotFound\<close>) when no row has the identifier, and otherwise with the \<open>storeIdentifier\<close> and
  the 25 metric columns of the row that has it, as node-postgres reads them, and with
  nothing else: two rows have the same answer exactly when they agree on all columns but
  \<open>id\<close>, \<open>timestamp\<close>, \<open>update_count\<close>, \<open>user_agent\<close> and \<open>ip\<close>, where for \<open>average_rating\<close>
  to agree is to be read as the same number.
\<close>

theorem fetch_returns_metrics_only:
  assumes "identifier \<noteq> []" and "fault w 0 = None"
  shows "(rows_of db identifier = [] \<longrightarrow> survey_fetch w identifier db = (NotFound, db)) \<and>
         (wf_db db \<longrightarrow>
            (\<forall>r \<in> set (surveys db). store_identifier r = identifier \<longrightarrow>
               survey_fetch w identifier db = (DataResponse (row_json (read_row r)), db) \<and>
               storeIdentifier (row_json (read_row r)) = identifier \<and>
               (\<forall>r'. row_json (read_row r') = row_json (read_row r) \<longleftrightarrow>
                  r'\<lparr> row_id := 0, timestamp := None, update_count := None,
                      user_agent := None, ip := None, average_rating := None \<rparr>
                  = r\<lparr> row_id := 0, timestamp := None, update_count := None,
                       user_agent := None, ip := None, average_rating := None \<rparr> \<and>
                  map_option real_column (average_rating r') =
                    map_option real_column (average_rating r))))"
proof (intro conjI impI ballI allI)
  assume "rows_of db identifier = []"
  then show "survey_fetch w identifier db = (NotFound, db)"
    by (simp add: fetch_rows[OF assms])
next
  fix r assume "wf_db db" "r \<in> set (surveys db)" "store_identifier r = identifier"
  then have "rows_of db identifier = [r]"
    using rows_of_unique by blast
  then show "survey_fetch w identifier db = (DataResponse (row_json (read_row r)), db)"
    by (simp add: fetch_rows[OF assms])
next
  fix r :: stored_row assume "store_identifier r = identifier"
  then show "storeIdentifier (row_json (read_row r)) = identifier"
    by (simp add: row_json_def read_row_def)
next
  fix r r' :: stored_row
  show "row_json (read_row r') = row_json (read_row r) \<longleftrightarrow>
          r'\<lparr> row_id := 0, timestamp := None, update_count := None,
              user_agent := None, ip := None, average_rating := None \<rparr>
          = r\<lparr> row_id := 0, timestamp := None, update_count := None,
               user_agent := None, ip := None, average_rating := None \<rparr> \<and>
          map_option real_column (average_rating r') =
            map_option real_column (average_rating r)"
    by (rule row_json_eq_iff)
qed

theorem fetch_returns_metrics_only_witness:
  "str ''S1'' \<noteq> [] \<and> fault (world_at 10) 0 = None \<and> wf_db (db_S1 (Some 2)) \<and>
   row_S1 1 (Some 2) (Some 50000) \<in> set (surveys (db_S1 (Some 2))) \<and>
   rows_of (db_S1 (Some 2)) (str ''S2'') = [] \<and>
   survey_fetch (world_at 10) (str ''S2'') (db_S1 (Some 2)) = (NotFound, db_S1 (Some 2)) \<and>
   survey_fetch (world_at 10) (str ''S1'') (db_S1 (Some 2)) =
     (DataResponse (row_json (read_row (row_S1 1 (Some 2) (Some 50000)))), db_S1 (Some 2)) \<and>
   monthlyRevenue (row_json (read_row (row_S1 1 (Some 2) (Some 50000)))) =
     Some (str ''50000'') \<and>
   row_json (read_row (row_S1 5 None (Some 50000))) =
     row_json (read_row (row_S1 1 (Some 2) (Some 50000)))"
proof -
  have f: "fault (world_at 10) 0 = None"
    by (simp add: world_at_def)
  have m: "row_S1 1 (Some 2) (Some 50000) \<in> set (surveys (db_S1 (Some 2)))"
    by (simp add: db_S1_def)
  have i: "store_identifier (row_S1 1 (Some 2) (Some 50000)) = str ''S1''"
    by (simp add: row_S1_def)
  note a = fetch_returns_metrics_only[OF str_S1_nonempty f, of "db_S1 (Some 2)"]
  note b = fetch_returns_metrics_only[OF str_S2_nonempty f, of "db_S1 (Some 2)"]
  have 1: "survey_fetch (world_at 10) (str ''S2'') (db_S1 (Some 2)) = (NotFound, db_S1 (Some 2))"
    using b rows_of_db_S1_other by blast
  have 2: "survey_fetch (world_at 10) (str ''S1'') (db_S1 (Some 2)) =
     (DataResponse (row_json (read_row (row_S1 1 (Some 2) (Some 50000)))), db_S1 (Some 2))"
    using a[THEN conjunct2] wf_db_S1 m i by blast
  have 3: "row_json (read_row (row_S1 5 None (Some 50000))) =
             row_json (read_row (row_S1 1 (Some 2) (Some 50000)))"
    using a[THEN conjunct2, rule_format, OF wf_db_S1 m i, THEN conjunct2, THEN conjunct2,
        rule_format, of "row_S1 5 None (Some 50000)"]
    by (simp add: row_S1_def)
  have 4: "monthlyRevenue (row_json (read_row (row_S1 1 (Some 2) (Some 50000)))) =
             Some (str ''50000'')"
    by (simp add: row_json_def read_row_def row_S1_def texts_S1_rated del: dec_digits.simps)
  show ?thesis
    using 1 2 3 4 f m str_S1_nonempty wf_db_S1 rows_of_db_S1_other by simp
qed

section \<open>Listing and exporting\<close>

lemma sorted_desc_page:
  "sorted_wrt (\<ge>) (map row_id (take n (drop m (rev (sort_key row_id xs)))))"
proof -
  have "sorted (map row_id (sort_key row_id xs))"
    by (rule sorted_sort_key)
  then have "sorted_wrt (\<ge>) (rev (map row_id (sort_key row_id xs)))"
    by (simp add: sorted_wrt_rev)
  then have "sorted_wrt (\<ge>) (map row_id (rev (sort_key row_id xs)))"
    by (simp add: rev_map)
  then have "sorted_wrt (\<ge>) (drop m (map row_id (rev (sort_key row_id xs))))"
    by (rule sorted_wrt_drop)
  then have "sorted_wrt (\<ge>) (take n (drop m (map row_id (rev (sort_key row_id xs)))))"
    by (rule sorted_wrt_take)
  then show ?thesis
    by (simp add: take_map drop_map)
qed

lemma bigint_param_Inr:
  assumes "bigint_param n = Inr k"
  shows "n = Finite (of_int k)"
  using assms by (auto simp: bigint_param_def split: jsnum.splits if_splits)

lemma select_page_rows:
  assumes "select_page l off db = (Inr rows, db')"
  shows "\<exists>li oi. l = Finite (of_int li) \<and> 0 \<le> li \<and> off = Finite (of_int oi) \<and> 0 \<le> oi \<and>
           rows = take (nat li) (drop (nat oi) (rev (sort_key row_id (surveys db))))"
  using assms
  by (auto simp: select_page_def split: sum.splits if_splits dest!: bigint_param_Inr)

lemma Math_min_1000:
  "Math_min n (Finite 1000) \<noteq> PosInfinity"
  "Math_min n (Finite 1000) = Finite q \<Longrightarrow> q \<le> 1000"
  "Math_min (Finite a) (Finite 1000) = Finite (min a 1000)"
  by (cases n; auto)+

lemma Math_max_0:
  "Math_max n (Finite 0) \<noteq> NegInfinity"
  "Math_max n (Finite 0) = Finite q \<Longrightarrow> 0 \<le> q"
  "Math_max (Finite a) (Finite 0) = Finite (max a 0)"
  by (cases n; auto)+

lemma page_limit_cases:
  assumes "page_limit req = Inr l"
  shows "\<exists>n. parse_query_int (get_prop (query req) ''limit'') ''100'' = Inr n \<and>
           l = Math_min n (Finite 1000)"
  using assms by (auto simp: page_limit_def and_then_Inr_iff)

lemma page_offset_cases:
  assumes "page_offset req = Inr off"
  shows "\<exists>n. parse_query_int (get_prop (query req) ''offset'') ''0'' = Inr n \<and>
           off = Math_max n (Finite 0)"
  using assms by (auto simp: page_offset_def and_then_Inr_iff)

lemma requireAdmin_passed:
  assumes "requireAdmin key req next db = (res, db')"
    and "\<And>n m. res \<noteq> ErrorResponse n m"
  shows "next = (res, db')"
  using assms by (auto simp: requireAdmin_def split: option.splits if_splits)

lemma surveys_handler_listed:
  assumes "surveys_handler w req db = (ListResponse rows l off total_n cnt, db')"
  shows "page_limit req = Inr l \<and> page_offset req = Inr off \<and> cnt = length rows \<and>
         (\<exists>db1. select_page l off db = (Inr rows, db1))"
  using assms
  by (auto simp: surveys_handler_def StorageUnavailable_def pool_query_def
           split: sum.splits prod.splits list.splits option.splits)

lemma parseInt_5000: "parseInt10 [53, 48, 48, 48] = Finite 5000"
  by code_simp

lemma parseInt_minus_1: "parseInt10 [45, 49] = Finite (- 1)"
  by code_simp

lemma admin_page_parsed:
  "parse_query_int (get_prop (query admin_page) ''limit'') ''100'' = Inr (Finite 5000)"
  "parse_query_int (get_prop (query admin_page) ''offset'') ''0'' = Inr (Finite (- 1))"
  by (simp_all add: parse_query_int_def admin_page_def get_prop_def str_def
        parseInt_5000 parseInt_minus_1)

lemma bigint_param_small:
  "bigint_param (Finite 1000) = Inr 1000" "bigint_param (Finite 0) = Inr 0"
  by (simp_all add: bigint_param_def)

lemma sorted_db_two:
  "sort_key row_id (surveys db_two) =
     [row_S1 1 (Some 0) (Some 50000),
      (row_S1 2 (Some 0) None) \<lparr> store_identifier := str ''S2'' \<rparr>]"
  by (simp add: db_two_def row_S1_def)

lemma list_admin_page:
  "list_surveys (Some (str ''secret'')) (world_at 1) admin_page db_two =
     (ListResponse
        [(row_S1 2 (Some 0) None) \<lparr> store_identifier := str ''S2'' \<rparr>,
         row_S1 1 (Some 0) (Some 50000)]
        (Finite 1000) (Finite 0) 2 2, db_two)"
proof -
  have k: "or_else (x_admin_key admin_page) (get_prop (query admin_page) ''key'') JString
             = JString (str ''secret'')" "str ''secret'' \<noteq> []"
    by (simp_all add: or_else_def admin_page_def str_def)
  have p: "page_limit admin_page = Inr (Finite 1000)" "page_offset admin_page = Inr (Finite 0)"
    by (simp_all add: page_limit_def page_offset_def admin_page_parsed and_then_def)
  have s: "select_page (Finite 1000) (Finite 0) db_two =
     (Inr [(row_S1 2 (Some 0) None) \<lparr> store_identifier := str ''S2'' \<rparr>,
           row_S1 1 (Some 0) (Some 50000)], db_two)"
    by (simp add: select_page_def bigint_param_small sorted_db_two)
  have c: "select_count db_two = (Inr [2], db_two)"
    by (simp add: select_count_def db_two_def)
  show ?thesis
    by (simp add: list_surveys_def requireAdmin_def k surveys_handler_def p pool_query_def
          world_at_def s c)
qed

lemma export_admin_page:
  "export_surveys (Some (str ''secret'')) (world_at 1) admin_page db_two =
     (CsvResponse
        [row_S1 1 (Some 0) (Some 50000),
         (row_S1 2 (Some 0) None) \<lparr> store_identifier := str ''S2'' \<rparr>], db_two)"
proof -
  have k: "or_else (x_admin_key admin_page) (get_prop (query admin_page) ''key'') JString
             = JString (str ''secret'')" "str ''secret'' \<noteq> []"
    by (simp_all add: or_else_def admin_page_def str_def)
  show ?thesis
    by (simp add: export_surveys_def requireAdmin_def k export_handler_def pool_query_def
          world_at_def select_all_def sorted_db_two)
qed

text \<open>
  C7.  \<open>GET /api/surveys\<close> computes its limit as the lesser of the parsed \<open>limit\<close> and 1000
  and its offset as the greater of the parsed \<open>offset\<close> and 0: a limit that is a number is at
  most 1000, an offset that is a number is at least 0 (a parameter that \<open>parseInt\<close> does not
  read gives \<open>NaN\<close>, which the storage engine refuses).  When the route answers with rows,
  these are the rows of the table by descending \<open>id\<close>, the first \<open>offset\<close> of them dropped
  and at most \<open>limit\<close> taken, with \<open>limit\<close> between 0 and 1000 and \<open>offset\<close> at least 0.  When
  \<open>GET /api/export\<close> answers with its document, its rows are all the rows of the table, by
  ascending \<open>id\<close>.
\<close>

theorem list_is_clamped_and_ordered:
  "(\<forall>l. page_limit req = Inr l \<longrightarrow> l \<noteq> PosInfinity \<and> (\<forall>q. l = Finite q \<longrightarrow> q \<le> 1000)) \<and>
   (\<forall>off. page_offset req = Inr off \<longrightarrow>
      off \<noteq> NegInfinity \<and> (\<forall>q. off = Finite q \<longrightarrow> 0 \<le> q)) \<and>
   (\<forall>n. parse_query_int (get_prop (query req) ''limit'') ''100'' = Inr (Finite n) \<longrightarrow>
      page_limit req = Inr (Finite (min n 1000))) \<and>
   (\<forall>n. parse_query_int (get_prop (query req) ''offset'') ''0'' = Inr (Finite n) \<longrightarrow>
      page_offset req = Inr (Finite (max n 0))) \<and>
   (list_surveys key w req db = (ListResponse rows l off total_n cnt, db') \<longrightarrow>
      (\<exists>li oi. page_limit req = Inr (Finite (of_int li)) \<and> l = Finite (of_int li) \<and>
          0 \<le> li \<and> li \<le> 1000 \<and>
          page_offset req = Inr (Finite (of_int oi)) \<and> off = Finite (of_int oi) \<and> 0 \<le> oi \<and>
          rows = take (nat li) (drop (nat oi) (rev (sort_key row_id (surveys db))))) \<and>
      sorted_wrt (\<ge>) (map row_id rows) \<and> cnt = length rows \<and> length rows \<le> 1000) \<and>
   (export_surveys key w req db = (CsvResponse rows', db'') \<longrightarrow>
      rows' = sort_key row_id (surveys db) \<and> sorted (map row_id rows') \<and>
      set rows' = set (surveys db) \<and> length rows' = length (surveys db))"
proof (intro conjI allI impI)
  fix l assume "page_limit req = Inr l"
  then obtain n where "l = Math_min n (Finite 1000)"
    using page_limit_cases by blast
  then show "l \<noteq> PosInfinity" "\<And>q. l = Finite q \<Longrightarrow> q \<le> 1000"
    using Math_min_1000 by auto
next
  fix off assume "page_offset req = Inr off"
  then obtain n where "off = Math_max n (Finite 0)"
    using page_offset_cases by blast
  then show "off \<noteq> NegInfinity" "\<And>q. off = Finite q \<Longrightarrow> 0 \<le> q"
    using Math_max_0 by auto
next
  fix n assume "parse_query_int (get_prop (query req) ''limit'') ''100'' = Inr (Finite n)"
  then show "page_limit req = Inr (Finite (min n 1000))"
    by (simp add: page_limit_def and_then_def)
next
  fix n assume "parse_query_int (get_prop (query req) ''offset'') ''0'' = Inr (Finite n)"
  then show "page_offset req = Inr (Finite (max n 0))"
    by (simp add: page_offset_def and_then_def)
next
  assume a: "list_surveys key w req db = (ListResponse rows l off total_n cnt, db')"
  have "surveys_handler w req db = (ListResponse rows l off total_n cnt, db')"
    using requireAdmin_passed[OF a[unfolded list_surveys_def]] by simp
  from surveys_handler_listed[OF this] obtain db1 where
    pl: "page_limit req = Inr l" and po: "page_offset req = Inr off"
    and cnt: "cnt = length rows" and sp: "select_page l off db = (Inr rows, db1)"
    by blast
  from select_page_rows[OF sp] obtain li oi where
    x: "l = Finite (of_int li)" "0 \<le> li" "off = Finite (of_int oi)" "0 \<le> oi"
      "rows = take (nat li) (drop (nat oi) (rev (sort_key row_id (surveys db))))"
    by blast
  from pl obtain n where "l = Math_min n (Finite 1000)"
    using page_limit_cases by blast
  with x(1) have "(of_int li :: rat) \<le> 1000"
    using Math_min_1000(2)[of n "of_int li"] by simp
  then have li: "li \<le> 1000" by linarith
  show "\<exists>li oi. page_limit req = Inr (Finite (of_int li)) \<and> l = Finite (of_int li) \<and>
          0 \<le> li \<and> li \<le> 1000 \<and>
          page_offset req = Inr (Finite (of_int oi)) \<and> off = Finite (of_int oi) \<and> 0 \<le> oi \<and>
          rows = take (nat li) (drop (nat oi) (rev (sort_key row_id (surveys db))))"
    using x li pl po by blast
  show "sorted_wrt (\<ge>) (map row_id rows)"
    unfolding x(5) by (rule sorted_desc_page)
  show "cnt = length rows" by (rule cnt)
  show "length rows \<le> 1000"
    using x(2,5) li by simp
next
  assume a: "export_surveys key w req db = (CsvResponse rows', db'')"
  have "export_handler w db = (CsvResponse rows', db'')"
    using requireAdmin_passed[OF a[unfolded export_surveys_def]] by simp
  then have r: "rows' = sort_key row_id (surveys db)"
    by (auto simp: export_handler_def pool_query_def select_all_def StorageUnavailable_def
             split: option.splits)
  show "rows' = sort_key row_id (surveys db)" by (rule r)
  show "sorted (map row_id rows')" unfolding r by (rule sorted_sort_key)
  show "set rows' = set (surveys db)" unfolding r by simp
  show "length rows' = length (surveys db)" unfolding r by simp
qed

theorem list_is_clamped_and_ordered_witness:
  "parse_query_int (get_prop (query admin_page) ''limit'') ''100'' = Inr (Finite 5000) \<and>
   parse_query_int (get_prop (query admin_page) ''offset'') ''0'' = Inr (Finite (- 1)) \<and>
   page_limit admin_page = Inr (Finite 1000) \<and> page_offset admin_page = Inr (Finite 0) \<and>
   list_surveys (Some (str ''secret'')) (world_at 1) admin_page db_two =
     (ListResponse
        [(row_S1 2 (Some 0) None) \<lparr> store_identifier := str ''S2'' \<rparr>,
         row_S1 1 (Some 0) (Some 50000)]
        (Finite 1000) (Finite 0) 2 2, db_two) \<and>
   sorted_wrt (\<ge>) (map row_id
        [(row_S1 2 (Some 0) None) \<lparr> store_identifier := str ''S2'' \<rparr>,
         row_S1 1 (Some 0) (Some 50000)]) \<and>
   export_surveys (Some (str ''secret'')) (world_at 1) admin_page db_two =
     (CsvResponse
        [row_S1 1 (Some 0) (Some 50000),
         (row_S1 2 (Some 0) None) \<lparr> store_identifier := str ''S2'' \<rparr>], db_two) \<and>
   sorted (map row_id
        [row_S1 1 (Some 0) (Some 50000),
         (row_S1 2 (Some 0) None) \<lparr> store_identifier := str ''S2'' \<rparr>])"
proof -
  note t = list_is_clamped_and_ordered[of admin_page "Some (str ''secret'')" "world_at 1" db_two
      "[(row_S1 2 (Some 0) None) \<lparr> store_identifier := str ''S2'' \<rparr>,
         row_S1 1 (Some 0) (Some 50000)]" "Finite 1000" "Finite 0" 2 2 db_two
      "[row_S1 1 (Some 0) (Some 50000),
         (row_S1 2 (Some 0) None) \<lparr> store_identifier := str ''S2'' \<rparr>]" db_two]
  have 1: "page_limit admin_page = Inr (Finite 1000)"
    using t[THEN conjunct2, THEN conjunct2, THEN conjunct1, rule_format,
        OF admin_page_parsed(1)] by simp
  have 2: "page_offset admin_page = Inr (Finite 0)"
    using t[THEN conjunct2, THEN conjunct2, THEN conjunct2, THEN conjunct1, rule_format,
        OF admin_page_parsed(2)] by simp
  have 3: "sorted_wrt (\<ge>) (map row_id
        [(row_S1 2 (Some 0) None) \<lparr> store_identifier := str ''S2'' \<rparr>,
         row_S1 1 (Some 0) (Some 50000)])"
    using t[THEN conjunct2, THEN conjunct2, THEN conjunct2, THEN conjunct2, THEN conjunct1,
        rule_format, OF list_admin_page] by blast
  have 4: "sorted (map row_id
        [row_S1 1 (Some 0) (Some 50000),
         (row_S1 2 (Some 0) None) \<lparr> store_identifier := str ''S2'' \<rparr>])"
    using t[THEN conjunct2, THEN conjunct2, THEN conjunct2, THEN conjunct2, THEN conjunct2,
        rule_format, OF export_admin_page] by blast
  show ?thesis
    using 1 2 3 4 admin_page_parsed list_admin_page export_admin_page
    by (intro conjI)
qed

end
